theory Spec2Isabelle
  imports Main "HOL-Library.Word" "HOL-Library.Sublist"
begin

section \<open>JavaScript values of a request body\<close>

text \<open>
  \<open>express.json()\<close> turns the request body into an object whose properties are JSON
  values; reading a property that is missing gives \<open>undefined\<close>. A number is given by
  its rendering under \<open>Number.prototype.toString\<close>, which determines it: \<open>5\<close> is
  \<open>JNumber ''5''\<close>, \<open>0.5\<close> is \<open>JNumber ''0.5''\<close>, and \<open>2^60\<close> is
  \<open>JNumber ''1152921504606847000''\<close>. Both zeros render as \<open>0\<close>. Characters are code
  units below 256.
\<close>

datatype jsval =
    JUndefined
  | JNull
  | JBool bool
  | JNumber string
  | JString string
  | JArray "jsval list"
  | JObject "(string \<times> jsval) list"

type_synonym body = "string \<rightharpoonup> jsval"

definition body_field :: "body \<Rightarrow> string \<Rightarrow> jsval" where
  "body_field b k = (case b k of None \<Rightarrow> JUndefined | Some v \<Rightarrow> v)"

text \<open>Truthiness, as tested by \<open>!x\<close>, \<open>x || y\<close> and \<open>x && y\<close>.\<close>

fun truthy :: "jsval \<Rightarrow> bool" where
  "truthy JUndefined = False"
| "truthy JNull = False"
| "truthy (JBool b) = b"
| "truthy (JNumber r) = (r \<noteq> ''0'' \<and> r \<noteq> ''NaN'')"
| "truthy (JString s) = (s \<noteq> [])"
| "truthy (JArray xs) = True"
| "truthy (JObject kvs) = True"

definition js_or :: "jsval \<Rightarrow> jsval \<Rightarrow> jsval" where
  "js_or a b = (if truthy a then a else b)"

text \<open>
  \<open>a === b\<close>: primitives compare by type and value; an array or object of the parsed body
  is a fresh reference and is identical to no other value the handlers compare it with.
\<close>

fun strict_eq :: "jsval \<Rightarrow> jsval \<Rightarrow> bool" where
  "strict_eq (JArray xs) b = False"
| "strict_eq (JObject kvs) b = False"
| "strict_eq a b = (a = b)"

definition strict_neq :: "jsval \<Rightarrow> jsval \<Rightarrow> bool" where
  "strict_neq a b = (\<not> strict_eq a b)"

subsection \<open>Casting to the schema type String\<close>

text \<open>
  The cast the document library applies to a value assigned to a String path: \<open>null\<close> and
  \<open>undefined\<close> pass through, an object with a non-empty string \<open>_id\<close> becomes that string,
  a string, number or boolean becomes its \<open>toString()\<close>, everything else (arrays, plain
  objects) cannot be cast.
\<close>

datatype cast = Uncastable | Nullish | Str string

fun castString :: "jsval \<Rightarrow> cast" where
  "castString JUndefined = Nullish"
| "castString JNull = Nullish"
| "castString (JBool b) = Str (if b then ''true'' else ''false'')"
| "castString (JNumber r) = Str r"
| "castString (JString s) = Str s"
| "castString (JArray xs) = Uncastable"
| "castString (JObject kvs) =
     (case map_of kvs ''_id'' of
        Some (JString s) \<Rightarrow> if s \<noteq> [] then Str s else Uncastable
      | _ \<Rightarrow> Uncastable)"

section \<open>Documents and the document store\<close>

text \<open>
  An ObjectId is a 96-bit value. A route parameter \<open>:id\<close> is the raw string of the URL;
  the by-id queries cast it to an ObjectId and reject when it is not a well-formed one.
  Dates are milliseconds since the epoch.
\<close>

type_synonym objectId = "96 word"

record user =
  user_id :: objectId
  name :: string
  email :: string
  password :: string
  accessToken :: string

record posting =
  posting_id :: objectId
  jobTitle :: string
  company :: string
  stage :: string
  createdAt :: nat
  userName :: string
  lastStageChange :: nat

text \<open>\<open>notes\<close> (here \<open>contact_notes\<close>) is the one String path that can hold \<open>null\<close> (\<open>None\<close>).\<close>

record contact =
  contact_id :: objectId
  contact_name :: string
  contact_company :: string
  contact_notes :: "string option"
  contact_userName :: string

record database =
  users :: "user list"
  postings :: "posting list"
  contacts :: "contact list"

text \<open>
  A document in memory: its paths, and whether an assignment to one of them failed to cast.
  A path whose cast failed keeps its prior value (the empty string on a new document);
  \<open>save()\<close> rejects such a document.
\<close>

record 'a document =
  doc :: 'a
  invalid :: bool

definition stage_enum :: "string list" where
  "stage_enum = [''applied'', ''interview'', ''offer'', ''rejected'']"

text \<open>
  The email validator \<open>/^[^\s@]+@[^\s@]+\.[^\s@]+$/\<close>: the value splits as
  \<open>a @ b . c\<close> with \<open>a\<close>, \<open>b\<close>, \<open>c\<close> non-empty and free of whitespace and \<open>@\<close>.
\<close>

definition whitespace :: "char \<Rightarrow> bool" where
  "whitespace c = (of_char c \<in> {9, 10, 11, 12, 13, 32, 160 :: nat})"

definition not_space_at :: "string \<Rightarrow> bool" where
  "not_space_at s = (s \<noteq> [] \<and> list_all (\<lambda>c. \<not> whitespace c \<and> c \<noteq> CHR ''@'') s)"

definition email_validator :: "string \<Rightarrow> bool" where
  "email_validator v =
     list_ex (\<lambda>i. list_ex (\<lambda>j.
        i < j \<and> v ! i = CHR ''@'' \<and> v ! j = CHR ''.'' \<and>
        not_space_at (take i v) \<and>
        not_space_at (take (j - Suc i) (drop (Suc i) v)) \<and>
        not_space_at (drop (Suc j) v)) [0..<length v]) [0..<length v]"

section \<open>The outside world of one request\<close>

text \<open>
  What the collaborators answer during one request: \<open>bcrypt\<close> (the salt is drawn inside
  \<open>hashSync\<close>), the entropy behind \<open>crypto.randomBytes\<close>, the successive readings of the
  clock, the ObjectId given to a new document, and the driver's cast of a string to an
  ObjectId (\<open>None\<close> when the string is not a well-formed ObjectId).
\<close>

record world =
  hashSync :: "string \<Rightarrow> string"
  compareSync :: "string \<Rightarrow> string \<Rightarrow> bool"
  entropy :: "nat \<Rightarrow> 8 word"
  clock :: "nat \<Rightarrow> nat"
  freshId :: objectId
  castObjectId :: "string \<Rightarrow> objectId option"

definition randomBytes :: "world \<Rightarrow> nat \<Rightarrow> 8 word list" where
  "randomBytes w n = map (entropy w) [0..<n]"

definition hex_digit :: "nat \<Rightarrow> char" where
  "hex_digit d = ''0123456789abcdef'' ! (d mod 16)"

definition hex_byte :: "8 word \<Rightarrow> string" where
  "hex_byte b = [hex_digit (unat b div 16), hex_digit (unat b mod 16)]"

definition toString_hex :: "8 word list \<Rightarrow> string" where
  "toString_hex bs = concat (map hex_byte bs)"

text \<open>The schema default of \<open>accessToken\<close>: \<open>crypto.randomBytes(128).toString("hex")\<close>.\<close>

definition default_accessToken :: "world \<Rightarrow> string" where
  "default_accessToken w = toString_hex (randomBytes w 128)"

section \<open>Handlers as programs over one exchange\<close>

datatype exn =
    IllegalArguments
  | CastError
  | ValidationError
  | DuplicateKey
  | HeadersSent

datatype payload =
    ErrorMessage string
  | ErrorObject exn
  | NotFoundTrue
  | Credentials string string
  | UserDoc user
  | PostingDoc posting
  | PostingDocs "posting list"
  | ContactDoc contact
  | ContactDocs "contact list"
  | Success
  | Text string

text \<open>The calls a handler makes to the store and to bcrypt, in order.\<close>

datatype call =
    User_findOne_name string
  | User_findOne_accessToken "string option"
  | User_save user
  | Posting_find string
  | Posting_findOne string string
  | Posting_save posting
  | Posting_findOneAndDelete string string
  | Contact_find string
  | Contact_findOne string string
  | Contact_save contact
  | Contact_findOneAndDelete string string
  | Bcrypt_hashSync jsval
  | Bcrypt_compareSync jsval string

text \<open>
  The state of one request/response exchange: the store, the response object (its status
  code and, once the handler has answered, the status and body it sent) and the calls made
  so far.
\<close>

record exchange =
  store :: database
  statusCode :: nat
  sent :: "(nat \<times> payload) option"
  calls :: "call list"

type_synonym 'a io = "exchange \<Rightarrow> (exn + 'a) \<times> exchange"

definition io_return :: "'a \<Rightarrow> 'a io" where
  "io_return x = (\<lambda>s. (Inr x, s))"

definition io_throw :: "exn \<Rightarrow> 'a io" where
  "io_throw e = (\<lambda>s. (Inl e, s))"

definition io_bind :: "'a io \<Rightarrow> ('a \<Rightarrow> 'b io) \<Rightarrow> 'b io" where
  "io_bind m f = (\<lambda>s. case m s of (Inl e, s') \<Rightarrow> (Inl e, s') | (Inr x, s') \<Rightarrow> f x s')"

definition io_catch :: "'a io \<Rightarrow> (exn \<Rightarrow> 'a io) \<Rightarrow> 'a io" where
  "io_catch m h = (\<lambda>s. case m s of (Inl e, s') \<Rightarrow> h e s' | (Inr x, s') \<Rightarrow> (Inr x, s'))"

definition record_call :: "call \<Rightarrow> unit io" where
  "record_call c = (\<lambda>s. (Inr (), s\<lparr>calls := calls s @ [c]\<rparr>))"

subsection \<open>The response object\<close>

definition res_status :: "nat \<Rightarrow> unit io" where
  "res_status n = (\<lambda>s. (Inr (), s\<lparr>statusCode := n\<rparr>))"

text \<open>
  \<open>res.send\<close> and \<open>res.json\<close>: the first one answers the client with the current status
  code; a later one throws, the headers being sent already.
\<close>

definition res_send :: "payload \<Rightarrow> unit io" where
  "res_send b = (\<lambda>s. case sent s of
        Some r \<Rightarrow> (Inl HeadersSent, s)
      | None \<Rightarrow> (Inr (), s\<lparr>sent := Some (statusCode s, b)\<rparr>))"

definition res_json :: "payload \<Rightarrow> unit io" where
  "res_json b = res_send b"

subsection \<open>bcrypt\<close>

text \<open>Both functions throw unless their arguments are strings.\<close>

definition bcrypt_hashSync :: "world \<Rightarrow> jsval \<Rightarrow> string io" where
  "bcrypt_hashSync w s =
     io_bind (record_call (Bcrypt_hashSync s)) (\<lambda>_.
       case s of JString p \<Rightarrow> io_return (hashSync w p) | _ \<Rightarrow> io_throw IllegalArguments)"

definition bcrypt_compareSync :: "world \<Rightarrow> jsval \<Rightarrow> string \<Rightarrow> bool io" where
  "bcrypt_compareSync w s hash =
     io_bind (record_call (Bcrypt_compareSync s hash)) (\<lambda>_.
       case s of JString p \<Rightarrow> io_return (compareSync w p hash) | _ \<Rightarrow> io_throw IllegalArguments)"

subsection \<open>Assignments to String paths\<close>

text \<open>
  Assigning \<open>v\<close> to a String path whose value was \<open>prior\<close>: the new value and whether the
  cast failed. The handlers assign truthy values or the prior string to these paths, so
  \<open>null\<close> and \<open>undefined\<close> do not reach them (lemma \<open>truthy_not_Nullish\<close>); that case
  is listed with the failures.
\<close>

definition cast_path :: "jsval \<Rightarrow> string \<Rightarrow> string \<times> bool" where
  "cast_path v prior = (case castString v of Str s \<Rightarrow> (s, False) | _ \<Rightarrow> (prior, True))"

text \<open>The same for \<open>notes\<close>, which may be \<open>null\<close>.\<close>

definition cast_notes :: "jsval \<Rightarrow> string option \<Rightarrow> string option \<times> bool" where
  "cast_notes v prior =
     (case castString v of Str s \<Rightarrow> (Some s, False) | Nullish \<Rightarrow> (None, False)
      | Uncastable \<Rightarrow> (prior, True))"

definition notes_value :: "string option \<Rightarrow> jsval" where
  "notes_value n = (case n of None \<Rightarrow> JNull | Some s \<Rightarrow> JString s)"

definition set_jobTitle :: "jsval \<Rightarrow> posting document \<Rightarrow> posting document" where
  "set_jobTitle v d =
     (let (s, failed) = cast_path v (jobTitle (doc d))
      in \<lparr>doc = (doc d)\<lparr>jobTitle := s\<rparr>, invalid = invalid d \<or> failed\<rparr>)"

definition set_company :: "jsval \<Rightarrow> posting document \<Rightarrow> posting document" where
  "set_company v d =
     (let (s, failed) = cast_path v (company (doc d))
      in \<lparr>doc = (doc d)\<lparr>company := s\<rparr>, invalid = invalid d \<or> failed\<rparr>)"

definition set_stage :: "jsval \<Rightarrow> posting document \<Rightarrow> posting document" where
  "set_stage v d =
     (let (s, failed) = cast_path v (stage (doc d))
      in \<lparr>doc = (doc d)\<lparr>stage := s\<rparr>, invalid = invalid d \<or> failed\<rparr>)"

definition set_lastStageChange :: "nat \<Rightarrow> posting document \<Rightarrow> posting document" where
  "set_lastStageChange t d = d\<lparr>doc := (doc d)\<lparr>lastStageChange := t\<rparr>\<rparr>"

definition set_contact_name :: "jsval \<Rightarrow> contact document \<Rightarrow> contact document" where
  "set_contact_name v d =
     (let (s, failed) = cast_path v (contact_name (doc d))
      in \<lparr>doc = (doc d)\<lparr>contact_name := s\<rparr>, invalid = invalid d \<or> failed\<rparr>)"

definition set_contact_company :: "jsval \<Rightarrow> contact document \<Rightarrow> contact document" where
  "set_contact_company v d =
     (let (s, failed) = cast_path v (contact_company (doc d))
      in \<lparr>doc = (doc d)\<lparr>contact_company := s\<rparr>, invalid = invalid d \<or> failed\<rparr>)"

definition set_contact_notes :: "jsval \<Rightarrow> contact document \<Rightarrow> contact document" where
  "set_contact_notes v d =
     (let (s, failed) = cast_notes v (contact_notes (doc d))
      in \<lparr>doc = (doc d)\<lparr>contact_notes := s\<rparr>, invalid = invalid d \<or> failed\<rparr>)"

subsection \<open>Constructors of new documents\<close>

text \<open>\<open>new User({ name, password, email })\<close>, with the schema default of \<open>accessToken\<close>.\<close>

definition new_User :: "world \<Rightarrow> jsval \<Rightarrow> string \<Rightarrow> jsval \<Rightarrow> user document" where
  "new_User w nm hash mail =
     (let (n, nf) = cast_path nm [];
          (e, ef) = cast_path mail []
      in \<lparr>doc = \<lparr>user_id = freshId w, name = n, email = e, password = hash,
                  accessToken = default_accessToken w\<rparr>,
          invalid = nf \<or> ef\<rparr>)"

text \<open>
  \<open>new Posting({ jobTitle, company, userName })\<close>: \<open>stage\<close>, \<open>createdAt\<close> and
  \<open>lastStageChange\<close> take their schema defaults, the two dates each reading the clock.
\<close>

definition new_Posting :: "world \<Rightarrow> jsval \<Rightarrow> jsval \<Rightarrow> string \<Rightarrow> posting document" where
  "new_Posting w title firm owner =
     (let (t, tf) = cast_path title [];
          (c, cf) = cast_path firm []
      in \<lparr>doc = \<lparr>posting_id = freshId w, jobTitle = t, company = c, stage = ''applied'',
                  createdAt = clock w 0, userName = owner, lastStageChange = clock w 1\<rparr>,
          invalid = tf \<or> cf\<rparr>)"

text \<open>
  \<open>new Contact({ name, company, notes, userName })\<close>: \<open>notes\<close> takes its default \<open>""\<close>
  when \<open>undefined\<close>.
\<close>

definition new_Contact :: "world \<Rightarrow> jsval \<Rightarrow> jsval \<Rightarrow> jsval \<Rightarrow> string \<Rightarrow> contact document" where
  "new_Contact w nm firm nts owner =
     (let (n, nf) = cast_path nm [];
          (c, cf) = cast_path firm [];
          (t, tf) = (if nts = JUndefined then (Some [], False) else cast_notes nts None)
      in \<lparr>doc = \<lparr>contact_id = freshId w, contact_name = n, contact_company = c,
                  contact_notes = t, contact_userName = owner\<rparr>,
          invalid = nf \<or> cf \<or> tf\<rparr>)"

subsection \<open>The store\<close>

definition get_store :: "database io" where
  "get_store = (\<lambda>s. (Inr (store s), s))"

definition put_store :: "database \<Rightarrow> unit io" where
  "put_store d = (\<lambda>s. (Inr (), s\<lparr>store := d\<rparr>))"

text \<open>Replacing the stored version of a document by its new version.\<close>

fun replace1 :: "'a \<Rightarrow> 'a \<Rightarrow> 'a list \<Rightarrow> 'a list" where
  "replace1 old new [] = []"
| "replace1 old new (x # xs) = (if x = old then new # xs else x # replace1 old new xs)"

definition User_findOne_by_name :: "string \<Rightarrow> user option io" where
  "User_findOne_by_name n =
     io_bind (record_call (User_findOne_name n)) (\<lambda>_.
     io_bind get_store (\<lambda>d. io_return (find (\<lambda>u. name u = n) (users d))))"

text \<open>
  \<open>User.findOne({ accessToken: h })\<close>. Every stored user carries a token string, so an
  absent header (\<open>undefined\<close>) matches none.
\<close>

definition matching_accessToken :: "string option \<Rightarrow> user list \<Rightarrow> user option" where
  "matching_accessToken h us =
     (case h of None \<Rightarrow> None | Some t \<Rightarrow> find (\<lambda>u. accessToken u = t) us)"

definition User_findOne_by_accessToken :: "string option \<Rightarrow> user option io" where
  "User_findOne_by_accessToken h =
     io_bind (record_call (User_findOne_accessToken h)) (\<lambda>_.
     io_bind get_store (\<lambda>d. io_return (matching_accessToken h (users d))))"

text \<open>
  \<open>user.save()\<close> on a new document: validation (cast errors, the required paths, the email
  validator), then the insert, which the unique indexes on \<open>name\<close> and \<open>email\<close> may reject.
\<close>

definition User_save_new :: "user document \<Rightarrow> unit io" where
  "User_save_new d =
     io_bind (record_call (User_save (doc d))) (\<lambda>_.
     io_bind get_store (\<lambda>st.
       if invalid d \<or> name (doc d) = [] \<or> email (doc d) = [] \<or> \<not> email_validator (email (doc d))
          \<or> password (doc d) = []
       then io_throw ValidationError
       else if name (doc d) \<in> set (map name (users st)) \<or> email (doc d) \<in> set (map email (users st))
       then io_throw DuplicateKey
       else put_store (st\<lparr>users := users st @ [doc d]\<rparr>)))"

definition Posting_find_by_userName :: "string \<Rightarrow> posting list io" where
  "Posting_find_by_userName owner =
     io_bind (record_call (Posting_find owner)) (\<lambda>_.
     io_bind get_store (\<lambda>d. io_return (filter (\<lambda>p. userName p = owner) (postings d))))"

text \<open>
  A query whose filter names \<open>_id\<close> first casts the string it was given; when the cast
  fails the query rejects with a CastError.
\<close>

definition with_ObjectId :: "world \<Rightarrow> string \<Rightarrow> (objectId \<Rightarrow> 'a io) \<Rightarrow> 'a io" where
  "with_ObjectId w i query =
     (case castObjectId w i of None \<Rightarrow> io_throw CastError | Some oid \<Rightarrow> query oid)"

definition Posting_findOne_by_id_userName :: "world \<Rightarrow> string \<Rightarrow> string \<Rightarrow> posting option io" where
  "Posting_findOne_by_id_userName w i owner =
     io_bind (record_call (Posting_findOne i owner)) (\<lambda>_.
     with_ObjectId w i (\<lambda>oid.
     io_bind get_store (\<lambda>d. io_return
       (find (\<lambda>p. posting_id p = oid \<and> userName p = owner) (postings d)))))"

text \<open>
  \<open>posting.save()\<close>: validation (cast errors, the \<open>enum\<close> of \<open>stage\<close>; the schema's
  \<open>require\<close> is not an option the library knows, so no path is required), then the write:
  an insert for a new document, else the stored version is replaced.
\<close>

definition Posting_validate :: "posting document \<Rightarrow> bool" where
  "Posting_validate d = (\<not> invalid d \<and> stage (doc d) \<in> set stage_enum)"

definition Posting_save_new :: "posting document \<Rightarrow> unit io" where
  "Posting_save_new d =
     io_bind (record_call (Posting_save (doc d))) (\<lambda>_.
     io_bind get_store (\<lambda>st.
       if \<not> Posting_validate d then io_throw ValidationError
       else put_store (st\<lparr>postings := postings st @ [doc d]\<rparr>)))"

definition Posting_save_loaded :: "posting \<Rightarrow> posting document \<Rightarrow> unit io" where
  "Posting_save_loaded stored d =
     io_bind (record_call (Posting_save (doc d))) (\<lambda>_.
     io_bind get_store (\<lambda>st.
       if \<not> Posting_validate d then io_throw ValidationError
       else put_store (st\<lparr>postings := replace1 stored (doc d) (postings st)\<rparr>)))"

definition Posting_findOneAndDelete_by_id_userName :: "world \<Rightarrow> string \<Rightarrow> string \<Rightarrow> posting option io" where
  "Posting_findOneAndDelete_by_id_userName w i owner =
     io_bind (record_call (Posting_findOneAndDelete i owner)) (\<lambda>_.
     with_ObjectId w i (\<lambda>oid.
     io_bind get_store (\<lambda>st.
       case find (\<lambda>p. posting_id p = oid \<and> userName p = owner) (postings st) of
         None \<Rightarrow> io_return None
       | Some p \<Rightarrow> io_bind (put_store (st\<lparr>postings := remove1 p (postings st)\<rparr>))
                    (\<lambda>_. io_return (Some p)))))"

definition Contact_find_by_userName :: "string \<Rightarrow> contact list io" where
  "Contact_find_by_userName owner =
     io_bind (record_call (Contact_find owner)) (\<lambda>_.
     io_bind get_store (\<lambda>d. io_return (filter (\<lambda>c. contact_userName c = owner) (contacts d))))"

definition Contact_findOne_by_id_userName :: "world \<Rightarrow> string \<Rightarrow> string \<Rightarrow> contact option io" where
  "Contact_findOne_by_id_userName w i owner =
     io_bind (record_call (Contact_findOne i owner)) (\<lambda>_.
     with_ObjectId w i (\<lambda>oid.
     io_bind get_store (\<lambda>d. io_return
       (find (\<lambda>c. contact_id c = oid \<and> contact_userName c = owner) (contacts d)))))"

text \<open>\<open>contact.save()\<close>: \<open>name\<close>, \<open>company\<close> and \<open>userName\<close> are required.\<close>

definition Contact_validate :: "contact document \<Rightarrow> bool" where
  "Contact_validate d =
     (\<not> invalid d \<and> contact_name (doc d) \<noteq> [] \<and> contact_company (doc d) \<noteq> []
      \<and> contact_userName (doc d) \<noteq> [])"

definition Contact_save_new :: "contact document \<Rightarrow> unit io" where
  "Contact_save_new d =
     io_bind (record_call (Contact_save (doc d))) (\<lambda>_.
     io_bind get_store (\<lambda>st.
       if \<not> Contact_validate d then io_throw ValidationError
       else put_store (st\<lparr>contacts := contacts st @ [doc d]\<rparr>)))"

definition Contact_save_loaded :: "contact \<Rightarrow> contact document \<Rightarrow> unit io" where
  "Contact_save_loaded stored d =
     io_bind (record_call (Contact_save (doc d))) (\<lambda>_.
     io_bind get_store (\<lambda>st.
       if \<not> Contact_validate d then io_throw ValidationError
       else put_store (st\<lparr>contacts := replace1 stored (doc d) (contacts st)\<rparr>)))"

definition Contact_findOneAndDelete_by_id_userName :: "world \<Rightarrow> string \<Rightarrow> string \<Rightarrow> contact option io" where
  "Contact_findOneAndDelete_by_id_userName w i owner =
     io_bind (record_call (Contact_findOneAndDelete i owner)) (\<lambda>_.
     with_ObjectId w i (\<lambda>oid.
     io_bind get_store (\<lambda>st.
       case find (\<lambda>c. contact_id c = oid \<and> contact_userName c = owner) (contacts st) of
         None \<Rightarrow> io_return None
       | Some c \<Rightarrow> io_bind (put_store (st\<lparr>contacts := remove1 c (contacts st)\<rparr>))
                    (\<lambda>_. io_return (Some c)))))"

section \<open>The routes of \<open>server.js\<close>\<close>

subsection \<open>Users\<close>

text \<open>\<open>app.post("/users")\<close>: creating a user.\<close>

definition post_users :: "world \<Rightarrow> body \<Rightarrow> unit io" where
  "post_users w b =
     (let uname = body_field b ''user'';
          mail = body_field b ''email'';
          pw = body_field b ''password''
      in if \<not> truthy uname \<or> \<not> truthy mail \<or> \<not> truthy pw
         then io_bind (res_status 400) (\<lambda>_.
                res_send (ErrorMessage ''Could not create user. User, email or password missing''))
         else io_catch
                (io_bind (bcrypt_hashSync w pw) (\<lambda>hash.
                 let u = new_User w uname hash mail in
                 io_bind (User_save_new u) (\<lambda>_.
                 io_bind (res_status 201) (\<lambda>_. res_send (UserDoc (doc u))))))
                (\<lambda>error. io_bind (res_status 400) (\<lambda>_. res_send (ErrorObject error))))"

text \<open>
  \<open>app.post("/users/:userName")\<close>: logging in. The missing-password branch answers and
  does not return.
\<close>

definition post_users_userName :: "world \<Rightarrow> string \<Rightarrow> body \<Rightarrow> unit io" where
  "post_users_userName w uname b =
     (let passEncrypted = body_field b ''password'';
          failure = io_bind (res_status 401) (\<lambda>_. res_json NotFoundTrue)
      in io_bind (if \<not> truthy passEncrypted
                  then res_json (ErrorMessage ''password missing in the body of request'')
                  else io_return ()) (\<lambda>_.
         io_bind (User_findOne_by_name uname) (\<lambda>found.
           case found of
             None \<Rightarrow> failure
           | Some u \<Rightarrow>
               io_bind (bcrypt_compareSync w passEncrypted (password u)) (\<lambda>ok.
                 if ok then res_json (Credentials (name u) (accessToken u)) else failure))))"

text \<open>
  The middleware \<open>authenticateUser\<close>: \<open>next\<close> is the handler registered after it, which
  receives the user attached to the request.
\<close>

definition authenticateUser :: "string option \<Rightarrow> (user \<Rightarrow> unit io) \<Rightarrow> unit io" where
  "authenticateUser authorization next =
     io_bind (User_findOne_by_accessToken authorization) (\<lambda>found.
       case found of
         Some u \<Rightarrow> next u
       | None \<Rightarrow> io_bind (res_status 401) (\<lambda>_. res_json (ErrorMessage ''User logged out'')))"

subsection \<open>Postings\<close>

definition post_postings :: "world \<Rightarrow> body \<Rightarrow> user \<Rightarrow> unit io" where
  "post_postings w b req_user =
     (let title = body_field b ''jobTitle'';
          firm = body_field b ''company''
      in if \<not> truthy title \<or> \<not> truthy firm
         then io_bind (res_status 400) (\<lambda>_.
                res_send (ErrorMessage ''Could not create posting. Job title or company missing''))
         else let p = new_Posting w title firm (name req_user) in
              io_bind (Posting_save_new p) (\<lambda>_.
              io_bind (res_status 201) (\<lambda>_. res_send (PostingDoc (doc p)))))"

definition get_postings_user :: "user \<Rightarrow> unit io" where
  "get_postings_user req_user =
     io_bind (Posting_find_by_userName (name req_user)) (\<lambda>ps. res_send (PostingDocs ps))"

text \<open>The assignments of \<open>app.put("/postings/:id")\<close> to the posting it found.\<close>

definition put_postings_assign :: "world \<Rightarrow> body \<Rightarrow> posting \<Rightarrow> posting document" where
  "put_postings_assign w b found =
     (let title = body_field b ''jobTitle'';
          firm = body_field b ''company'';
          stg = body_field b ''stage'';
          p0 = \<lparr>doc = found, invalid = False\<rparr>;
          p1 = set_jobTitle (js_or title (JString (jobTitle (doc p0)))) p0;
          p2 = set_company (js_or firm (JString (company (doc p1)))) p1
      in if truthy stg \<and> strict_neq stg (JString (stage (doc p2)))
         then set_lastStageChange (clock w 0) (set_stage stg p2)
         else set_stage (js_or stg (JString (stage (doc p2)))) p2)"

definition put_postings_id :: "world \<Rightarrow> string \<Rightarrow> body \<Rightarrow> user \<Rightarrow> unit io" where
  "put_postings_id w postingId b req_user =
     io_bind (Posting_findOne_by_id_userName w postingId (name req_user)) (\<lambda>found.
       case found of
         None \<Rightarrow> io_bind (res_status 404) (\<lambda>_.
                   res_send (ErrorMessage ''Posting not found or user not authorized''))
       | Some p \<Rightarrow>
           let p' = put_postings_assign w b p in
           io_bind (Posting_save_loaded p p') (\<lambda>_. res_send (PostingDoc (doc p'))))"

definition get_postings_id :: "world \<Rightarrow> string \<Rightarrow> user \<Rightarrow> unit io" where
  "get_postings_id w postingId req_user =
     io_bind (Posting_findOne_by_id_userName w postingId (name req_user)) (\<lambda>found.
       case found of
         None \<Rightarrow> io_bind (res_status 404) (\<lambda>_.
                   res_send (ErrorMessage ''Posting not found or user not authorized''))
       | Some p \<Rightarrow> res_send (PostingDoc p))"

definition delete_postings_id :: "world \<Rightarrow> string \<Rightarrow> user \<Rightarrow> unit io" where
  "delete_postings_id w postingId req_user =
     io_bind (Posting_findOneAndDelete_by_id_userName w postingId (name req_user)) (\<lambda>found.
       case found of
         None \<Rightarrow> io_bind (res_status 404) (\<lambda>_.
                   res_send (ErrorMessage ''Posting not found or user not authorized''))
       | Some p \<Rightarrow> res_send Success)"

subsection \<open>Contacts\<close>

definition get_contacts :: "user \<Rightarrow> unit io" where
  "get_contacts req_user =
     io_bind (Contact_find_by_userName (name req_user)) (\<lambda>cs. res_send (ContactDocs cs))"

definition post_contacts :: "world \<Rightarrow> body \<Rightarrow> user \<Rightarrow> unit io" where
  "post_contacts w b req_user =
     (let nm = body_field b ''name'';
          firm = body_field b ''company'';
          nts = body_field b ''notes''
      in if \<not> truthy nm \<or> \<not> truthy firm
         then io_bind (res_status 400) (\<lambda>_.
                res_send (ErrorMessage ''Name and company are required''))
         else let c = new_Contact w nm firm nts (name req_user) in
              io_bind (Contact_save_new c) (\<lambda>_.
              io_bind (res_status 201) (\<lambda>_. res_send (ContactDoc (doc c)))))"

text \<open>The assignments of \<open>app.put("/contacts/:id")\<close> to the contact it found.\<close>

definition put_contacts_assign :: "body \<Rightarrow> contact \<Rightarrow> contact document" where
  "put_contacts_assign b found =
     (let nm = body_field b ''name'';
          firm = body_field b ''company'';
          nts = body_field b ''notes'';
          c0 = \<lparr>doc = found, invalid = False\<rparr>;
          c1 = set_contact_name (js_or nm (JString (contact_name (doc c0)))) c0;
          c2 = set_contact_company (js_or firm (JString (contact_company (doc c1)))) c1
      in set_contact_notes (js_or nts (notes_value (contact_notes (doc c2)))) c2)"

definition put_contacts_id :: "world \<Rightarrow> string \<Rightarrow> body \<Rightarrow> user \<Rightarrow> unit io" where
  "put_contacts_id w contactId b req_user =
     io_bind (Contact_findOne_by_id_userName w contactId (name req_user)) (\<lambda>found.
       case found of
         None \<Rightarrow> io_bind (res_status 404) (\<lambda>_.
                   res_send (ErrorMessage ''Contact not found or user not authorized''))
       | Some c \<Rightarrow>
           let c' = put_contacts_assign b c in
           io_bind (Contact_save_loaded c c') (\<lambda>_. res_send (ContactDoc (doc c'))))"

definition delete_contacts_id :: "world \<Rightarrow> string \<Rightarrow> user \<Rightarrow> unit io" where
  "delete_contacts_id w contactId req_user =
     io_bind (Contact_findOneAndDelete_by_id_userName w contactId (name req_user)) (\<lambda>found.
       case found of
         None \<Rightarrow> io_bind (res_status 404) (\<lambda>_.
                   res_send (ErrorMessage ''Contact not found or user not authorized''))
       | Some c \<Rightarrow> res_send Success)"

definition get_root :: "unit io" where
  "get_root = res_send (Text ''Hello Technigo!'')"

subsection \<open>The application\<close>

text \<open>The routes registered behind \<open>authenticateUser\<close>, with their parameters and body.\<close>

datatype resource_route =
    Post_postings body
  | Get_postings_user
  | Put_postings_id string body
  | Get_postings_id string
  | Delete_postings_id string
  | Get_contacts
  | Post_contacts body
  | Put_contacts_id string body
  | Delete_contacts_id string

datatype route =
    Get_root
  | Post_users body
  | Post_users_userName string body
  | Resource resource_route

fun resource_handler :: "world \<Rightarrow> resource_route \<Rightarrow> user \<Rightarrow> unit io" where
  "resource_handler w (Post_postings b) = post_postings w b"
| "resource_handler w Get_postings_user = get_postings_user"
| "resource_handler w (Put_postings_id i b) = put_postings_id w i b"
| "resource_handler w (Get_postings_id i) = get_postings_id w i"
| "resource_handler w (Delete_postings_id i) = delete_postings_id w i"
| "resource_handler w Get_contacts = get_contacts"
| "resource_handler w (Post_contacts b) = post_contacts w b"
| "resource_handler w (Put_contacts_id i b) = put_contacts_id w i b"
| "resource_handler w (Delete_contacts_id i) = delete_contacts_id w i"

fun app :: "world \<Rightarrow> string option \<Rightarrow> route \<Rightarrow> unit io" where
  "app w authorization Get_root = get_root"
| "app w authorization (Post_users b) = post_users w b"
| "app w authorization (Post_users_userName uname b) = post_users_userName w uname b"
| "app w authorization (Resource r) = authenticateUser authorization (resource_handler w r)"

text \<open>A fresh exchange on a store: status 200, nothing sent, no call made.\<close>

definition fresh :: "database \<Rightarrow> exchange" where
  "fresh d = \<lparr>store = d, statusCode = 200, sent = None, calls = []\<rparr>"

text \<open>
  Serving one request, and what is observed of it: the response the handler sent, the
  exception that escaped the handler (none of the async handlers is wrapped, so it is left
  to the framework), the store afterwards, the calls made.
\<close>

definition serve :: "world \<Rightarrow> string option \<Rightarrow> route \<Rightarrow> database \<Rightarrow> (exn + unit) \<times> exchange" where
  "serve w authorization r d = app w authorization r (fresh d)"

definition reply :: "(exn + unit) \<times> exchange \<Rightarrow> (nat \<times> payload) option" where
  "reply out = sent (snd out)"

definition thrown :: "(exn + unit) \<times> exchange \<Rightarrow> exn option" where
  "thrown out = (case fst out of Inl e \<Rightarrow> Some e | Inr u \<Rightarrow> None)"

definition after :: "(exn + unit) \<times> exchange \<Rightarrow> database" where
  "after out = store (snd out)"

definition trace :: "(exn + unit) \<times> exchange \<Rightarrow> call list" where
  "trace out = calls (snd out)"

text \<open>A sequence of requests, each with its own world, served one after the other.\<close>

fun run :: "(world \<times> string option \<times> route) list \<Rightarrow> database \<Rightarrow> database" where
  "run [] d = d"
| "run ((w, authorization, r) # rest) d = run rest (after (serve w authorization r d))"

section \<open>Sample data\<close>

text \<open>
  A world, two users and their records, used to instantiate the theorems below. The sample
  world casts a string to an ObjectId when it is 24 hexadecimal digits.
\<close>

definition hex_digit_value :: "char \<Rightarrow> nat option" where
  "hex_digit_value c = map_of (zip ''0123456789abcdefABCDEF'' ([0..<16] @ [10..<16])) c"

fun hex_number :: "nat \<Rightarrow> string \<Rightarrow> nat option" where
  "hex_number acc [] = Some acc"
| "hex_number acc (c # cs) =
     (case hex_digit_value c of None \<Rightarrow> None | Some v \<Rightarrow> hex_number (16 * acc + v) cs)"

definition objectId_of_hex :: "string \<Rightarrow> objectId option" where
  "objectId_of_hex s = (if length s = 24 then map_option of_nat (hex_number 0 s) else None)"

definition sample_world :: world where
  "sample_world =
     \<lparr>hashSync = (\<lambda>p. CHR ''$'' # p), compareSync = (\<lambda>p h. h = CHR ''$'' # p),
      entropy = (\<lambda>i. of_nat i), clock = (\<lambda>i. 1000 + i), freshId = 7,
      castObjectId = objectId_of_hex\<rparr>"

definition alice_posting_ref :: string where
  "alice_posting_ref = ''00000000000000000000000a''"

definition bob_posting_ref :: string where
  "bob_posting_ref = ''00000000000000000000000b''"

definition alice_contact_ref :: string where
  "alice_contact_ref = ''000000000000000000000014''"

definition unknown_ref :: string where
  "unknown_ref = ''000000000000000000000063''"

definition malformed_ref :: string where
  "malformed_ref = ''abc''"

definition alice :: user where
  "alice = \<lparr>user_id = 1, name = ''alice'', email = ''a@x.com'', password = ''$pw1'',
            accessToken = ''T''\<rparr>"

definition bob :: user where
  "bob = \<lparr>user_id = 2, name = ''bob'', email = ''b@x.com'', password = ''$pw2'',
          accessToken = ''U''\<rparr>"

definition alice_posting :: posting where
  "alice_posting = \<lparr>posting_id = 10, jobTitle = ''Eng'', company = ''Acme'', stage = ''applied'',
                    createdAt = 5, userName = ''alice'', lastStageChange = 5\<rparr>"

definition bob_posting :: posting where
  "bob_posting = \<lparr>posting_id = 11, jobTitle = ''Ops'', company = ''Initech'', stage = ''offer'',
                  createdAt = 6, userName = ''bob'', lastStageChange = 8\<rparr>"

definition alice_contact :: contact where
  "alice_contact = \<lparr>contact_id = 20, contact_name = ''Carol'', contact_company = ''Acme'',
                    contact_notes = Some ''met at fair'', contact_userName = ''alice''\<rparr>"

definition bob_contact :: contact where
  "bob_contact = \<lparr>contact_id = 21, contact_name = ''Dave'', contact_company = ''Initech'',
                  contact_notes = Some [], contact_userName = ''bob''\<rparr>"

definition empty_body :: body where
  "empty_body = Map.empty"

definition numeric_password_body :: body where
  "numeric_password_body = [''password'' \<mapsto> JNumber ''123'']"

definition numeric_signup_body :: body where
  "numeric_signup_body = [''user'' \<mapsto> JString ''carol'', ''email'' \<mapsto> JString ''c@x.com'',
     ''password'' \<mapsto> JNumber ''123'']"

definition array_title_body :: body where
  "array_title_body = [''jobTitle'' \<mapsto> JArray [JString ''Lead'']]"

definition sample_db :: database where
  "sample_db = \<lparr>users = [alice, bob], postings = [alice_posting, bob_posting],
                contacts = [alice_contact, bob_contact]\<rparr>"

section \<open>Running the programs\<close>

lemmas io_defs = io_return_def io_bind_def io_throw_def io_catch_def record_call_def
  res_status_def res_send_def res_json_def get_store_def put_store_def

lemma sample_world_simps:
  "hashSync sample_world p = CHR ''$'' # p"
  "compareSync sample_world p h \<longleftrightarrow> h = CHR ''$'' # p"
  "entropy sample_world k = of_nat k"
  "clock sample_world k = 1000 + k"
  "freshId sample_world = 7"
  by (simp_all add: sample_world_def)

lemma sample_refs:
  "castObjectId sample_world alice_posting_ref = Some 10"
  "castObjectId sample_world bob_posting_ref = Some 11"
  "castObjectId sample_world alice_contact_ref = Some 20"
  "castObjectId sample_world unknown_ref = Some 99"
  "castObjectId sample_world malformed_ref = None"
  by (simp_all add: sample_world_def objectId_of_hex_def hex_digit_value_def alice_posting_ref_def
      bob_posting_ref_def alice_contact_ref_def unknown_ref_def malformed_ref_def upt_rec)

lemmas sample_defs = sample_world_simps sample_refs sample_db_def alice_def bob_def alice_posting_def
  bob_posting_def alice_contact_def bob_contact_def

lemma matching_accessToken_None:
  "matching_accessToken h us = None \<longleftrightarrow> \<not> (\<exists>u\<in>set us. Some (accessToken u) = h)"
  by (auto simp: matching_accessToken_def find_None_iff split: option.splits)

lemma matching_accessToken_Some:
  "matching_accessToken h us = Some u \<Longrightarrow> u \<in> set us \<and> h = Some (accessToken u)"
  by (auto simp: matching_accessToken_def find_Some_iff split: option.splits)

lemma serve_Resource_rejected:
  assumes "matching_accessToken authorization (users d) = None"
  shows "serve w authorization (Resource r) d =
           (Inr (), \<lparr>store = d, statusCode = 401,
                     sent = Some (401, ErrorMessage ''User logged out''),
                     calls = [User_findOne_accessToken authorization]\<rparr>)"
  using assms
  by (simp add: serve_def fresh_def authenticateUser_def User_findOne_by_accessToken_def io_defs)

lemma serve_Resource_admitted:
  assumes "matching_accessToken authorization (users d) = Some u"
  shows "serve w authorization (Resource r) d =
           resource_handler w r u ((fresh d)\<lparr>calls := [User_findOne_accessToken authorization]\<rparr>)"
  using assms
  by (simp add: serve_def fresh_def authenticateUser_def User_findOne_by_accessToken_def io_defs)



section \<open>The authentication gate\<close>

text \<open>
  Claim C5. For every request to a protected posting or contact route: if no stored user's
  \<open>accessToken\<close> equals the \<open>Authorization\<close> header, the answer is 401, nothing is thrown,
  the store is unchanged and the only call made is the user lookup, so the resource handler
  is not reached; if a stored user matches, the route behaves as its resource handler run
  with that user attached to the request.
\<close>

theorem authenticateUser_gate:
  "(\<not> (\<exists>u\<in>set (users d). Some (accessToken u) = authorization) \<longrightarrow>
      reply (serve w authorization (Resource r) d) = Some (401, ErrorMessage ''User logged out'')
      \<and> thrown (serve w authorization (Resource r) d) = None
      \<and> after (serve w authorization (Resource r) d) = d
      \<and> trace (serve w authorization (Resource r) d) = [User_findOne_accessToken authorization])
   \<and> ((\<exists>u\<in>set (users d). Some (accessToken u) = authorization) \<longrightarrow>
      (\<exists>u\<in>set (users d). Some (accessToken u) = authorization
         \<and> serve w authorization (Resource r) d =
             resource_handler w r u
               ((fresh d)\<lparr>calls := [User_findOne_accessToken authorization]\<rparr>)))"
proof (intro conjI impI)
  assume no: "\<not> (\<exists>u\<in>set (users d). Some (accessToken u) = authorization)"
  then have none: "matching_accessToken authorization (users d) = None"
    by (simp add: matching_accessToken_None)
  note out = serve_Resource_rejected [OF none, of w r]
  show "reply (serve w authorization (Resource r) d) = Some (401, ErrorMessage ''User logged out'')"
    by (simp add: out reply_def)
  show "thrown (serve w authorization (Resource r) d) = None"
    by (simp add: out thrown_def)
  show "after (serve w authorization (Resource r) d) = d"
    by (simp add: out after_def)
  show "trace (serve w authorization (Resource r) d) = [User_findOne_accessToken authorization]"
    by (simp add: out trace_def)
next
  assume "\<exists>u\<in>set (users d). Some (accessToken u) = authorization"
  then have "matching_accessToken authorization (users d) \<noteq> None"
    by (simp add: matching_accessToken_None)
  then obtain u where u: "matching_accessToken authorization (users d) = Some u"
    by blast
  from matching_accessToken_Some [OF u] serve_Resource_admitted [OF u, of w r]
  show "\<exists>u\<in>set (users d). Some (accessToken u) = authorization
         \<and> serve w authorization (Resource r) d =
             resource_handler w r u
               ((fresh d)\<lparr>calls := [User_findOne_accessToken authorization]\<rparr>)"
    by blast
qed

theorem authenticateUser_gate_witness:
  "(\<not> (\<exists>u\<in>set (users sample_db). Some (accessToken u) = Some ''stale'')
      \<and> reply (serve sample_world (Some ''stale'') (Resource (Delete_postings_id alice_posting_ref)) sample_db)
          = Some (401, ErrorMessage ''User logged out'')
      \<and> after (serve sample_world (Some ''stale'') (Resource (Delete_postings_id alice_posting_ref)) sample_db)
          = sample_db
      \<and> trace (serve sample_world (Some ''stale'') (Resource (Delete_postings_id alice_posting_ref)) sample_db)
          = [User_findOne_accessToken (Some ''stale'')])
   \<and> ((\<exists>u\<in>set (users sample_db). Some (accessToken u) = Some ''T'')
      \<and> serve sample_world (Some ''T'') (Resource (Delete_postings_id alice_posting_ref)) sample_db
          = resource_handler sample_world (Delete_postings_id alice_posting_ref) alice
              ((fresh sample_db)\<lparr>calls := [User_findOne_accessToken (Some ''T'')]\<rparr>))"
proof -
  have stale: "\<not> (\<exists>u\<in>set (users sample_db). Some (accessToken u) = Some ''stale'')"
    by (simp add: sample_defs)
  have known: "\<exists>u\<in>set (users sample_db). Some (accessToken u) = Some ''T''"
    by (simp add: sample_defs)
  have only: "\<And>u. u \<in> set (users sample_db) \<Longrightarrow> Some (accessToken u) = Some ''T'' \<Longrightarrow> u = alice"
    by (auto simp: sample_defs)
  from authenticateUser_gate [of sample_db "Some ''stale''" sample_world "Delete_postings_id alice_posting_ref"]
    authenticateUser_gate [of sample_db "Some ''T''" sample_world "Delete_postings_id alice_posting_ref"]
    stale known only
  show ?thesis by blast
qed

section \<open>Owner scoping of records addressed by id\<close>

lemmas out_defs = reply_def thrown_def after_def trace_def

lemmas store_defs = with_ObjectId_def Posting_findOne_by_id_userName_def Posting_findOneAndDelete_by_id_userName_def
  Posting_find_by_userName_def Posting_save_new_def Posting_save_loaded_def
  Contact_findOne_by_id_userName_def Contact_findOneAndDelete_by_id_userName_def
  Contact_find_by_userName_def Contact_save_new_def Contact_save_loaded_def

lemmas handler_defs = post_postings_def get_postings_user_def put_postings_id_def
  get_postings_id_def delete_postings_id_def get_contacts_def post_contacts_def
  put_contacts_id_def delete_contacts_id_def

lemma posting_not_found:
  assumes auth: "matching_accessToken authorization (users d) = Some u"
    and r: "r \<in> {Get_postings_id i, Put_postings_id i b, Delete_postings_id i}"
    and cast: "castObjectId w i = Some oid"
    and none: "find (\<lambda>p. posting_id p = oid \<and> userName p = name u) (postings d) = None"
  shows "reply (serve w authorization (Resource r) d)
           = Some (404, ErrorMessage ''Posting not found or user not authorized'')
         \<and> thrown (serve w authorization (Resource r) d) = None
         \<and> after (serve w authorization (Resource r) d) = d"
  using r cast none
  by (auto simp: serve_Resource_admitted [OF auth] fresh_def out_defs handler_defs store_defs io_defs)

lemma contact_not_found:
  assumes auth: "matching_accessToken authorization (users d) = Some u"
    and r: "r \<in> {Put_contacts_id i b, Delete_contacts_id i}"
    and cast: "castObjectId w i = Some oid"
    and none: "find (\<lambda>c. contact_id c = oid \<and> contact_userName c = name u) (contacts d) = None"
  shows "reply (serve w authorization (Resource r) d)
           = Some (404, ErrorMessage ''Contact not found or user not authorized'')
         \<and> thrown (serve w authorization (Resource r) d) = None
         \<and> after (serve w authorization (Resource r) d) = d"
  using r cast none
  by (auto simp: serve_Resource_admitted [OF auth] fresh_def out_defs handler_defs store_defs io_defs)

lemma by_id_malformed:
  assumes auth: "matching_accessToken authorization (users d) = Some u"
    and r: "r \<in> {Get_postings_id i, Put_postings_id i b, Delete_postings_id i,
                 Put_contacts_id i b, Delete_contacts_id i}"
    and cast: "castObjectId w i = None"
  shows "reply (serve w authorization (Resource r) d) = None
         \<and> thrown (serve w authorization (Resource r) d) = Some CastError
         \<and> after (serve w authorization (Resource r) d) = d"
  using r cast
  by (auto simp: serve_Resource_admitted [OF auth] fresh_def out_defs handler_defs store_defs io_defs)

lemma filter_replace1:
  "\<not> P old \<Longrightarrow> \<not> P new \<Longrightarrow> filter P (replace1 old new xs) = filter P xs"
  by (induction xs) auto

lemma filter_remove1_other:
  "\<not> P x \<Longrightarrow> filter P (remove1 x xs) = filter P xs"
  by (induction xs) auto

lemma find_SomeD: "find P xs = Some x \<Longrightarrow> x \<in> set xs \<and> P x"
  by (auto simp: find_Some_iff)

lemma userName_assign [simp]: "userName (doc (put_postings_assign w b p)) = userName p"
  by (simp add: put_postings_assign_def set_jobTitle_def set_company_def set_stage_def
      set_lastStageChange_def Let_def split: prod.splits)

lemma userName_assign_c [simp]: "contact_userName (doc (put_contacts_assign b c)) = contact_userName c"
  by (simp add: put_contacts_assign_def set_contact_name_def set_contact_company_def set_contact_notes_def
       Let_def split: prod.splits)

lemma others_postings:
  assumes auth: "matching_accessToken authorization (users d) = Some u"
  shows "filter (\<lambda>p. userName p \<noteq> name u) (postings (after (serve w authorization (Resource r) d)))
         = filter (\<lambda>p. userName p \<noteq> name u) (postings d)"
proof (cases r)
  case (Put_postings_id i b)
  then show ?thesis
    by (auto simp: serve_Resource_admitted [OF auth] fresh_def out_defs handler_defs store_defs io_defs
        filter_replace1 Let_def dest!: find_SomeD split: option.splits)
next
  case (Delete_postings_id i)
  then show ?thesis
    by (auto simp: serve_Resource_admitted [OF auth] fresh_def out_defs handler_defs store_defs io_defs
        filter_remove1_other Let_def dest!: find_SomeD split: option.splits)
next
  case (Post_postings b)
  then show ?thesis
    by (auto simp: serve_Resource_admitted [OF auth] fresh_def out_defs handler_defs store_defs io_defs
         new_Posting_def Let_def split: option.splits prod.splits)
qed (auto simp: serve_Resource_admitted [OF auth] fresh_def out_defs handler_defs store_defs io_defs
        new_Contact_def Let_def dest!: find_SomeD split: option.splits prod.splits)


lemma others_contacts:
  assumes auth: "matching_accessToken authorization (users d) = Some u"
  shows "filter (\<lambda>c. contact_userName c \<noteq> name u) (contacts (after (serve w authorization (Resource r) d)))
         = filter (\<lambda>c. contact_userName c \<noteq> name u) (contacts d)"
proof (cases r)
  case (Put_contacts_id i b)
  then show ?thesis
    by (auto simp: serve_Resource_admitted [OF auth] fresh_def out_defs handler_defs store_defs io_defs
        filter_replace1 Let_def dest!: find_SomeD split: option.splits)
next
  case (Delete_contacts_id i)
  then show ?thesis
    by (auto simp: serve_Resource_admitted [OF auth] fresh_def out_defs handler_defs store_defs io_defs
        filter_remove1_other Let_def dest!: find_SomeD split: option.splits)
next
  case (Post_contacts b)
  then show ?thesis
    by (auto simp: serve_Resource_admitted [OF auth] fresh_def out_defs handler_defs store_defs io_defs
         new_Contact_def Let_def split: option.splits prod.splits)
qed (auto simp: serve_Resource_admitted [OF auth] fresh_def out_defs handler_defs store_defs io_defs
        new_Posting_def Let_def dest!: find_SomeD split: option.splits prod.splits)

lemma replies_own_records:
  assumes auth: "matching_accessToken authorization (users d) = Some u"
    and sent: "reply (serve w authorization (Resource r) d) = Some (st, pl)"
  shows "(case pl of
            PostingDoc p \<Rightarrow> userName p = name u
          | PostingDocs ps \<Rightarrow> \<forall>p\<in>set ps. userName p = name u
          | ContactDoc c \<Rightarrow> contact_userName c = name u
          | ContactDocs cs \<Rightarrow> \<forall>c\<in>set cs. contact_userName c = name u
          | _ \<Rightarrow> True)"
  using sent
  by (cases r)
     (auto simp: serve_Resource_admitted [OF auth] fresh_def out_defs handler_defs store_defs io_defs
        new_Posting_def new_Contact_def Let_def dest!: find_SomeD
        split: option.splits prod.splits if_splits)

text \<open>
  Owner scoping for a well-formed id. Let \<open>u\<close> be the caller the token resolves to and
  \<open>oid\<close> the ObjectId the route's \<open>:id\<close> casts to. A get, update or delete of a posting
  by id, and an update or delete of a contact by id (the contact routes have no get by id),
  answers 404 with one fixed body, throws nothing and leaves the store as it was whenever no
  stored record has both that id and \<open>u\<close>'s name as owner: the answer is the same whether
  the id is unknown or belongs to someone else. An answer 200 therefore needs such a record.
  Whatever the route and the id, the records of other owners are neither changed, removed
  nor added to, and every posting or contact sent back, alone or in a list, is owned by
  \<open>u\<close>.
\<close>

lemma by_id_owner_scoping_well_formed:
  assumes auth: "matching_accessToken authorization (users d) = Some u"
  shows "(let out = serve w authorization (Resource r) d in
     (r \<in> {Get_postings_id i, Put_postings_id i b, Delete_postings_id i} \<longrightarrow>
      castObjectId w i = Some oid \<longrightarrow>
        (\<not> (\<exists>p\<in>set (postings d). posting_id p = oid \<and> userName p = name u) \<longrightarrow>
           reply out = Some (404, ErrorMessage ''Posting not found or user not authorized'')
           \<and> thrown out = None \<and> after out = d)
        \<and> (\<forall>pl. reply out = Some (200, pl) \<longrightarrow>
             (\<exists>p\<in>set (postings d). posting_id p = oid \<and> userName p = name u)))
   \<and> (r \<in> {Put_contacts_id i b, Delete_contacts_id i} \<longrightarrow>
      castObjectId w i = Some oid \<longrightarrow>
        (\<not> (\<exists>c\<in>set (contacts d). contact_id c = oid \<and> contact_userName c = name u) \<longrightarrow>
           reply out = Some (404, ErrorMessage ''Contact not found or user not authorized'')
           \<and> thrown out = None \<and> after out = d)
        \<and> (\<forall>pl. reply out = Some (200, pl) \<longrightarrow>
             (\<exists>c\<in>set (contacts d). contact_id c = oid \<and> contact_userName c = name u)))
   \<and> filter (\<lambda>p. userName p \<noteq> name u) (postings (after out))
        = filter (\<lambda>p. userName p \<noteq> name u) (postings d)
   \<and> filter (\<lambda>c. contact_userName c \<noteq> name u) (contacts (after out))
        = filter (\<lambda>c. contact_userName c \<noteq> name u) (contacts d)
   \<and> (\<forall>st p. reply out = Some (st, PostingDoc p) \<longrightarrow> userName p = name u)
   \<and> (\<forall>st c. reply out = Some (st, ContactDoc c) \<longrightarrow> contact_userName c = name u)
   \<and> (\<forall>st ps. reply out = Some (st, PostingDocs ps) \<longrightarrow> (\<forall>p\<in>set ps. userName p = name u))
   \<and> (\<forall>st cs. reply out = Some (st, ContactDocs cs) \<longrightarrow>
         (\<forall>c\<in>set cs. contact_userName c = name u)))"
proof -
  let ?out = "serve w authorization (Resource r) d"
  have p404: "reply ?out = Some (404, ErrorMessage ''Posting not found or user not authorized'')
      \<and> thrown ?out = None \<and> after ?out = d"
    if "r \<in> {Get_postings_id i, Put_postings_id i b, Delete_postings_id i}"
      and "castObjectId w i = Some oid"
      and "\<not> (\<exists>p\<in>set (postings d). posting_id p = oid \<and> userName p = name u)"
    using posting_not_found [OF auth that(1,2)] that(3) by (simp add: find_None_iff)
  have c404: "reply ?out = Some (404, ErrorMessage ''Contact not found or user not authorized'')
      \<and> thrown ?out = None \<and> after ?out = d"
    if "r \<in> {Put_contacts_id i b, Delete_contacts_id i}"
      and "castObjectId w i = Some oid"
      and "\<not> (\<exists>c\<in>set (contacts d). contact_id c = oid \<and> contact_userName c = name u)"
    using contact_not_found [OF auth that(1,2)] that(3) by (simp add: find_None_iff)
  have pdoc: "userName p = name u" if "reply ?out = Some (st, PostingDoc p)" for st p
    using replies_own_records [OF auth that] by simp
  have cdoc: "contact_userName c = name u" if "reply ?out = Some (st, ContactDoc c)" for st c
    using replies_own_records [OF auth that] by simp
  have pdocs: "\<forall>p\<in>set ps. userName p = name u" if "reply ?out = Some (st, PostingDocs ps)" for st ps
    using replies_own_records [OF auth that] by simp
  have cdocs: "\<forall>c\<in>set cs. contact_userName c = name u"
    if "reply ?out = Some (st, ContactDocs cs)" for st cs
    using replies_own_records [OF auth that] by simp
  have p200: "\<exists>p\<in>set (postings d). posting_id p = oid \<and> userName p = name u"
    if "r \<in> {Get_postings_id i, Put_postings_id i b, Delete_postings_id i}"
      and "castObjectId w i = Some oid"
      and "reply ?out = Some (200, pl)" for pl
    using p404 [OF that(1,2)] that(3) by fastforce
  have c200: "\<exists>c\<in>set (contacts d). contact_id c = oid \<and> contact_userName c = name u"
    if "r \<in> {Put_contacts_id i b, Delete_contacts_id i}"
      and "castObjectId w i = Some oid"
      and "reply ?out = Some (200, pl)" for pl
    using c404 [OF that(1,2)] that(3) by fastforce
  note frame = others_postings [OF auth, of w r] others_contacts [OF auth, of w r]
  show ?thesis
    unfolding Let_def
    apply (insert p404 c404 p200 c200 pdoc cdoc pdocs cdocs frame)
    apply (intro conjI impI allI)
                 apply blast+
    done
qed

text \<open>
  Claim C2 says that a get, update or delete by id answers 404 whenever no record with that
  id is owned by the caller, with the same answer for an id that does not exist. That is what
  the code does for a well-formed id (lemma \<open>by_id_owner_scoping_well_formed\<close>). At an id
  that is not a well-formed ObjectId, such as \<open>abc\<close>, no record has that id, but the query
  rejects with a CastError, which none of the by-id handlers catches: the handler sends no
  404, while the unknown but well-formed id gets the 404.
\<close>

theorem malformed_id_not_answered:
  "matching_accessToken (Some ''T'') (users sample_db) = Some alice
   \<and> castObjectId sample_world malformed_ref = None
   \<and> reply (serve sample_world (Some ''T'') (Resource (Get_postings_id malformed_ref)) sample_db)
       = None
   \<and> thrown (serve sample_world (Some ''T'') (Resource (Get_postings_id malformed_ref)) sample_db)
       = Some CastError
   \<and> reply (serve sample_world (Some ''T'') (Resource (Delete_postings_id malformed_ref))
        sample_db) = None
   \<and> reply (serve sample_world (Some ''T'') (Resource (Delete_contacts_id malformed_ref))
        sample_db) = None
   \<and> castObjectId sample_world unknown_ref = Some 99
   \<and> reply (serve sample_world (Some ''T'') (Resource (Get_postings_id unknown_ref)) sample_db)
       = Some (404, ErrorMessage ''Posting not found or user not authorized'')
   \<and> reply (serve sample_world (Some ''T'') (Resource (Get_postings_id bob_posting_ref)) sample_db)
       = Some (404, ErrorMessage ''Posting not found or user not authorized'')"
proof -
  have auth: "matching_accessToken (Some ''T'') (users sample_db) = Some alice"
    by (simp add: matching_accessToken_def sample_defs)
  have absent: "find (\<lambda>p. posting_id p = 99 \<and> userName p = name alice) (postings sample_db) = None"
    by (simp add: sample_defs)
  have other: "find (\<lambda>p. posting_id p = 11 \<and> userName p = name alice) (postings sample_db) = None"
    by (simp add: sample_defs)
  note bad = by_id_malformed [OF auth _ sample_refs(5), where b = empty_body]
  from auth sample_refs bad [of "Get_postings_id malformed_ref"]
    bad [of "Delete_postings_id malformed_ref"] bad [of "Delete_contacts_id malformed_ref"]
    posting_not_found [OF auth _ sample_refs(4) absent,
      of "Get_postings_id unknown_ref" empty_body]
    posting_not_found [OF auth _ sample_refs(2) other,
      of "Get_postings_id bob_posting_ref" empty_body]
  show ?thesis
    by simp
qed

section \<open>Updates: the assignments and what is saved\<close>

lemma truthy_not_Nullish: "truthy v \<Longrightarrow> castString v \<noteq> Nullish"
  by (cases v) (auto split: option.splits jsval.splits)

lemma strict_neq_JString: "strict_neq v (JString s) \<longleftrightarrow> v \<noteq> JString s"
  by (cases v) (auto simp: strict_neq_def)

lemma cast_path_js_or:
  "cast_path (js_or v (JString old)) old =
     (if truthy v then (case castString v of Str s \<Rightarrow> (s, False) | _ \<Rightarrow> (old, True))
      else (old, False))"
  by (simp add: cast_path_def js_or_def)

lemma cast_notes_js_or:
  "cast_notes (js_or v (notes_value old)) old =
     (if truthy v then (case castString v of Str s \<Rightarrow> (Some s, False) | _ \<Rightarrow> (old, True))
      else (old, False))"
  using truthy_not_Nullish [of v]
  by (auto simp: cast_notes_def js_or_def notes_value_def split: cast.splits option.splits)

lemma set_path_simps:
  "doc (set_jobTitle v d) = (doc d)\<lparr>jobTitle := fst (cast_path v (jobTitle (doc d)))\<rparr>"
  "invalid (set_jobTitle v d) = (invalid d \<or> snd (cast_path v (jobTitle (doc d))))"
  "doc (set_company v d) = (doc d)\<lparr>company := fst (cast_path v (company (doc d)))\<rparr>"
  "invalid (set_company v d) = (invalid d \<or> snd (cast_path v (company (doc d))))"
  "doc (set_stage v d) = (doc d)\<lparr>stage := fst (cast_path v (stage (doc d)))\<rparr>"
  "invalid (set_stage v d) = (invalid d \<or> snd (cast_path v (stage (doc d))))"
  "doc (set_lastStageChange t d) = (doc d)\<lparr>lastStageChange := t\<rparr>"
  "invalid (set_lastStageChange t d) = invalid d"
  by (simp_all add: set_jobTitle_def set_company_def set_stage_def set_lastStageChange_def
      split_beta)

lemma set_contact_path_simps:
  "doc (set_contact_name v c) = (doc c)\<lparr>contact_name := fst (cast_path v (contact_name (doc c)))\<rparr>"
  "invalid (set_contact_name v c) = (invalid c \<or> snd (cast_path v (contact_name (doc c))))"
  "doc (set_contact_company v c) = (doc c)\<lparr>contact_company := fst (cast_path v (contact_company (doc c)))\<rparr>"
  "invalid (set_contact_company v c) = (invalid c \<or> snd (cast_path v (contact_company (doc c))))"
  "doc (set_contact_notes v c) = (doc c)\<lparr>contact_notes := fst (cast_notes v (contact_notes (doc c)))\<rparr>"
  "invalid (set_contact_notes v c) = (invalid c \<or> snd (cast_notes v (contact_notes (doc c))))"
  by (simp_all add: set_contact_name_def set_contact_company_def set_contact_notes_def split_beta)

lemma cast_path_truthy:
  "truthy v \<Longrightarrow> cast_path (js_or v other) old = cast_path v old"
  by (simp add: js_or_def)

lemma put_postings_assign_doc:
  "doc (put_postings_assign w b p) =
     p\<lparr>jobTitle := fst (cast_path (js_or (body_field b ''jobTitle'') (JString (jobTitle p))) (jobTitle p)),
       company := fst (cast_path (js_or (body_field b ''company'') (JString (company p))) (company p)),
       stage := fst (cast_path (js_or (body_field b ''stage'') (JString (stage p))) (stage p)),
       lastStageChange :=
         (if truthy (body_field b ''stage'') \<and> body_field b ''stage'' \<noteq> JString (stage p)
          then clock w 0 else lastStageChange p)\<rparr>"
  by (simp add: put_postings_assign_def Let_def set_path_simps strict_neq_JString cast_path_truthy)

lemma put_postings_assign_invalid:
  "invalid (put_postings_assign w b p) \<longleftrightarrow>
     snd (cast_path (js_or (body_field b ''jobTitle'') (JString (jobTitle p))) (jobTitle p))
     \<or> snd (cast_path (js_or (body_field b ''company'') (JString (company p))) (company p))
     \<or> snd (cast_path (js_or (body_field b ''stage'') (JString (stage p))) (stage p))"
  by (simp add: put_postings_assign_def Let_def set_path_simps strict_neq_JString cast_path_truthy)

lemma put_contacts_assign_doc:
  "doc (put_contacts_assign b c) =
     c\<lparr>contact_name := fst (cast_path (js_or (body_field b ''name'') (JString (contact_name c))) (contact_name c)),
       contact_company := fst (cast_path (js_or (body_field b ''company'') (JString (contact_company c))) (contact_company c)),
       contact_notes := fst (cast_notes (js_or (body_field b ''notes'') (notes_value (contact_notes c))) (contact_notes c))\<rparr>"
  by (simp add: put_contacts_assign_def Let_def set_contact_path_simps)

lemma put_contacts_assign_invalid:
  "invalid (put_contacts_assign b c) \<longleftrightarrow>
     snd (cast_path (js_or (body_field b ''name'') (JString (contact_name c))) (contact_name c))
     \<or> snd (cast_path (js_or (body_field b ''company'') (JString (contact_company c))) (contact_company c))
     \<or> snd (cast_notes (js_or (body_field b ''notes'') (notes_value (contact_notes c))) (contact_notes c))"
  by (simp add: put_contacts_assign_def Let_def set_contact_path_simps)

lemma serve_put_postings_found:
  assumes auth: "matching_accessToken authorization (users d) = Some u"
    and cast: "castObjectId w i = Some oid"
    and found: "find (\<lambda>p. posting_id p = oid \<and> userName p = name u) (postings d) = Some p"
  shows "serve w authorization (Resource (Put_postings_id i b)) d =
     (if Posting_validate (put_postings_assign w b p)
      then (Inr (),
            \<lparr>store = d\<lparr>postings := replace1 p (doc (put_postings_assign w b p)) (postings d)\<rparr>,
             statusCode = 200,
             sent = Some (200, PostingDoc (doc (put_postings_assign w b p))),
             calls = [User_findOne_accessToken authorization, Posting_findOne i (name u),
                      Posting_save (doc (put_postings_assign w b p))]\<rparr>)
      else (Inl ValidationError,
            \<lparr>store = d, statusCode = 200, sent = None,
             calls = [User_findOne_accessToken authorization, Posting_findOne i (name u),
                      Posting_save (doc (put_postings_assign w b p))]\<rparr>))"
  using cast found
  by (simp add: serve_Resource_admitted [OF auth] fresh_def put_postings_id_def with_ObjectId_def
      Posting_findOne_by_id_userName_def Posting_save_loaded_def io_defs Let_def)

lemma serve_put_contacts_found:
  assumes auth: "matching_accessToken authorization (users d) = Some u"
    and cast: "castObjectId w i = Some oid"
    and found: "find (\<lambda>c. contact_id c = oid \<and> contact_userName c = name u) (contacts d) = Some c"
  shows "serve w authorization (Resource (Put_contacts_id i b)) d =
     (if Contact_validate (put_contacts_assign b c)
      then (Inr (),
            \<lparr>store = d\<lparr>contacts := replace1 c (doc (put_contacts_assign b c)) (contacts d)\<rparr>,
             statusCode = 200,
             sent = Some (200, ContactDoc (doc (put_contacts_assign b c))),
             calls = [User_findOne_accessToken authorization, Contact_findOne i (name u),
                      Contact_save (doc (put_contacts_assign b c))]\<rparr>)
      else (Inl ValidationError,
            \<lparr>store = d, statusCode = 200, sent = None,
             calls = [User_findOne_accessToken authorization, Contact_findOne i (name u),
                      Contact_save (doc (put_contacts_assign b c))]\<rparr>))"
  using cast found
  by (simp add: serve_Resource_admitted [OF auth] fresh_def put_contacts_id_def with_ObjectId_def
      Contact_findOne_by_id_userName_def Contact_save_loaded_def io_defs Let_def)


lemma put_postings_replied:
  assumes auth: "matching_accessToken authorization (users d) = Some u"
    and ok: "reply (serve w authorization (Resource (Put_postings_id i b)) d) = Some (200, pl)"
  shows "\<exists>oid p. castObjectId w i = Some oid
           \<and> find (\<lambda>p. posting_id p = oid \<and> userName p = name u) (postings d) = Some p
           \<and> Posting_validate (put_postings_assign w b p)
           \<and> pl = PostingDoc (doc (put_postings_assign w b p))
           \<and> after (serve w authorization (Resource (Put_postings_id i b)) d)
               = d\<lparr>postings := replace1 p (doc (put_postings_assign w b p)) (postings d)\<rparr>"
proof (cases "castObjectId w i")
  case None
  from by_id_malformed [OF auth _ None, of "Put_postings_id i b" b] ok
  show ?thesis by simp
next
  case (Some oid)
  note cast = this
  show ?thesis
  proof (cases "find (\<lambda>p. posting_id p = oid \<and> userName p = name u) (postings d)")
    case None
    from posting_not_found [OF auth _ cast None, of "Put_postings_id i b" b] ok
    show ?thesis by simp
  next
    case (Some p)
    from serve_put_postings_found [OF auth cast Some, of b] ok
    show ?thesis
      by (auto simp: Some cast reply_def after_def split: if_splits)
  qed
qed

lemma put_contacts_replied:
  assumes auth: "matching_accessToken authorization (users d) = Some u"
    and ok: "reply (serve w authorization (Resource (Put_contacts_id i b)) d) = Some (200, pl)"
  shows "\<exists>oid c. castObjectId w i = Some oid
           \<and> find (\<lambda>c. contact_id c = oid \<and> contact_userName c = name u) (contacts d) = Some c
           \<and> Contact_validate (put_contacts_assign b c)
           \<and> pl = ContactDoc (doc (put_contacts_assign b c))
           \<and> after (serve w authorization (Resource (Put_contacts_id i b)) d)
               = d\<lparr>contacts := replace1 c (doc (put_contacts_assign b c)) (contacts d)\<rparr>"
proof (cases "castObjectId w i")
  case None
  from by_id_malformed [OF auth _ None, of "Put_contacts_id i b" b] ok
  show ?thesis by simp
next
  case (Some oid)
  note cast = this
  show ?thesis
  proof (cases "find (\<lambda>c. contact_id c = oid \<and> contact_userName c = name u) (contacts d)")
    case None
    from contact_not_found [OF auth _ cast None, of "Put_contacts_id i b" b] ok
    show ?thesis by simp
  next
    case (Some c)
    from serve_put_contacts_found [OF auth cast Some, of b] ok
    show ?thesis
      by (auto simp: Some cast reply_def after_def split: if_splits)
  qed
qed

text \<open>
  Claim C9. A posting update that succeeds (status 200) took a stored posting \<open>p\<close> with the
  given id (the ObjectId the route's \<open>:id\<close> casts to) and the caller as owner, and the posting sent back and stored in its place is
  \<open>p\<close> with at most \<open>jobTitle\<close>, \<open>company\<close>, \<open>stage\<close> and \<open>lastStageChange\<close> changed:
  its id, \<open>createdAt\<close> and \<open>userName\<close> are those of \<open>p\<close>. Users, contacts and the
  other postings are as before.
\<close>

theorem put_postings_frame:
  assumes auth: "matching_accessToken authorization (users d) = Some u"
    and ok: "reply (serve w authorization (Resource (Put_postings_id i b)) d) = Some (200, pl)"
  shows "\<exists>p\<in>set (postings d). \<exists>jt co sg t.
           castObjectId w i = Some (posting_id p) \<and> userName p = name u
           \<and> pl = PostingDoc (p\<lparr>jobTitle := jt, company := co, stage := sg, lastStageChange := t\<rparr>)
           \<and> after (serve w authorization (Resource (Put_postings_id i b)) d)
               = d\<lparr>postings := replace1 p
                     (p\<lparr>jobTitle := jt, company := co, stage := sg, lastStageChange := t\<rparr>)
                     (postings d)\<rparr>
           \<and> posting_id (p\<lparr>jobTitle := jt, company := co, stage := sg, lastStageChange := t\<rparr>)
               = posting_id p
           \<and> createdAt (p\<lparr>jobTitle := jt, company := co, stage := sg, lastStageChange := t\<rparr>)
               = createdAt p
           \<and> userName (p\<lparr>jobTitle := jt, company := co, stage := sg, lastStageChange := t\<rparr>)
               = userName p"
proof -
  from put_postings_replied [OF auth ok] obtain oid p
    where cast: "castObjectId w i = Some oid"
      and found: "find (\<lambda>p. posting_id p = oid \<and> userName p = name u) (postings d) = Some p"
      and pl: "pl = PostingDoc (doc (put_postings_assign w b p))"
      and st: "after (serve w authorization (Resource (Put_postings_id i b)) d)
               = d\<lparr>postings := replace1 p (doc (put_postings_assign w b p)) (postings d)\<rparr>"
    by blast
  from find_SomeD [OF found] cast
  have p: "p \<in> set (postings d)" "castObjectId w i = Some (posting_id p)" "userName p = name u"
    by simp_all
  let ?p' = "doc (put_postings_assign w b p)"
  have shape: "?p' = p\<lparr>jobTitle := jobTitle ?p', company := company ?p', stage := stage ?p',
                        lastStageChange := lastStageChange ?p'\<rparr>"
    by (simp add: put_postings_assign_doc)
  show ?thesis
  proof (intro bexI [OF _ p(1)] exI conjI)
    show "pl = PostingDoc (p\<lparr>jobTitle := jobTitle ?p', company := company ?p', stage := stage ?p',
                               lastStageChange := lastStageChange ?p'\<rparr>)"
      using pl shape by simp
    show "after (serve w authorization (Resource (Put_postings_id i b)) d)
            = d\<lparr>postings := replace1 p
                  (p\<lparr>jobTitle := jobTitle ?p', company := company ?p', stage := stage ?p',
                     lastStageChange := lastStageChange ?p'\<rparr>) (postings d)\<rparr>"
      using st shape by simp
  qed (simp_all add: p)
qed

lemmas eval_defs = serve_def fresh_def authenticateUser_def User_findOne_by_accessToken_def
  matching_accessToken_def handler_defs store_defs io_defs out_defs body_field_def
  put_postings_assign_def put_contacts_assign_def set_path_simps set_contact_path_simps
  set_jobTitle_def set_company_def set_stage_def set_lastStageChange_def
  set_contact_name_def set_contact_company_def set_contact_notes_def
  cast_path_def cast_notes_def notes_value_def js_or_def strict_neq_def
  Posting_validate_def Contact_validate_def stage_enum_def new_Posting_def new_Contact_def
  Let_def

theorem put_postings_frame_witness:
  "matching_accessToken (Some ''T'') (users sample_db) = Some alice
   \<and> reply (serve sample_world (Some ''T'')
        (Resource (Put_postings_id alice_posting_ref [''stage'' \<mapsto> JString ''interview''])) sample_db)
       = Some (200, PostingDoc (alice_posting\<lparr>stage := ''interview'', lastStageChange := 1000\<rparr>))
   \<and> (\<exists>p\<in>set (postings sample_db). \<exists>jt co sg t.
           castObjectId sample_world alice_posting_ref = Some (posting_id p)
           \<and> userName p = name alice
           \<and> PostingDoc (alice_posting\<lparr>stage := ''interview'', lastStageChange := 1000\<rparr>)
               = PostingDoc (p\<lparr>jobTitle := jt, company := co, stage := sg, lastStageChange := t\<rparr>)
           \<and> createdAt (p\<lparr>jobTitle := jt, company := co, stage := sg, lastStageChange := t\<rparr>)
               = createdAt p
           \<and> userName (p\<lparr>jobTitle := jt, company := co, stage := sg, lastStageChange := t\<rparr>)
               = userName p)"
proof -
  have auth: "matching_accessToken (Some ''T'') (users sample_db) = Some alice"
    by (simp add: matching_accessToken_def sample_defs)
  have ok: "reply (serve sample_world (Some ''T'')
        (Resource (Put_postings_id alice_posting_ref [''stage'' \<mapsto> JString ''interview''])) sample_db)
       = Some (200, PostingDoc (alice_posting\<lparr>stage := ''interview'', lastStageChange := 1000\<rparr>))"
    by (simp add: eval_defs sample_defs)
  from put_postings_frame [OF auth ok] auth ok
  show ?thesis by blast
qed


lemma in_set_replace1: "old \<in> set xs \<Longrightarrow> new \<in> set (replace1 old new xs)"
  by (induction xs) auto

lemma cast_path_string_or_falsy:
  "\<not> truthy v \<or> (\<exists>s. v = JString s) \<Longrightarrow> \<not> snd (cast_path (js_or v (JString old)) old)"
  by (auto simp: cast_path_js_or)

text \<open>
  Claim C3. On a posting update, the posting the handler found gets \<open>lastStageChange\<close> set to
  the time of the update exactly when the request's \<open>stage\<close> is truthy and differs from the
  stored \<open>stage\<close>; otherwise it keeps its value. The posting so assigned is what \<open>save()\<close>
  is given: when validation accepts it, it replaces the stored posting and is sent back with
  status 200, else \<open>save()\<close> rejects, the store is unchanged and the handler sends
  nothing. A \<open>stage\<close> that is one of
  the four enum strings and differs from the stored one, with \<open>jobTitle\<close> and \<open>company\<close>
  absent, falsy or strings, is always accepted and stored with the new time.
\<close>

theorem lastStageChange_rule:
  "lastStageChange (doc (put_postings_assign w b p)) =
     (if truthy (body_field b ''stage'') \<and> body_field b ''stage'' \<noteq> JString (stage p)
      then clock w 0 else lastStageChange p)
   \<and> (matching_accessToken authorization (users d) = Some u \<longrightarrow>
      castObjectId w i = Some oid \<longrightarrow>
      find (\<lambda>p. posting_id p = oid \<and> userName p = name u) (postings d) = Some p \<longrightarrow>
        (if Posting_validate (put_postings_assign w b p)
         then reply (serve w authorization (Resource (Put_postings_id i b)) d)
                = Some (200, PostingDoc (doc (put_postings_assign w b p)))
              \<and> after (serve w authorization (Resource (Put_postings_id i b)) d)
                = d\<lparr>postings := replace1 p (doc (put_postings_assign w b p)) (postings d)\<rparr>
         else reply (serve w authorization (Resource (Put_postings_id i b)) d) = None
              \<and> thrown (serve w authorization (Resource (Put_postings_id i b)) d)
                = Some ValidationError
              \<and> after (serve w authorization (Resource (Put_postings_id i b)) d) = d)
        \<and> (\<forall>s. body_field b ''stage'' = JString s \<longrightarrow> s \<in> set stage_enum \<longrightarrow> s \<noteq> stage p \<longrightarrow>
             (\<not> truthy (body_field b ''jobTitle'') \<or> (\<exists>t. body_field b ''jobTitle'' = JString t)) \<longrightarrow>
             (\<not> truthy (body_field b ''company'') \<or> (\<exists>t. body_field b ''company'' = JString t)) \<longrightarrow>
             (\<exists>p'. reply (serve w authorization (Resource (Put_postings_id i b)) d)
                     = Some (200, PostingDoc p')
                   \<and> p' \<in> set (postings (after (serve w authorization (Resource (Put_postings_id i b)) d)))
                   \<and> stage p' = s \<and> lastStageChange p' = clock w 0)))"
proof (intro conjI impI allI)
  show "lastStageChange (doc (put_postings_assign w b p)) =
     (if truthy (body_field b ''stage'') \<and> body_field b ''stage'' \<noteq> JString (stage p)
      then clock w 0 else lastStageChange p)"
    by (simp add: put_postings_assign_doc)
next
  assume auth: "matching_accessToken authorization (users d) = Some u"
    and cast: "castObjectId w i = Some oid"
    and found: "find (\<lambda>p. posting_id p = oid \<and> userName p = name u) (postings d) = Some p"
  show "if Posting_validate (put_postings_assign w b p)
         then reply (serve w authorization (Resource (Put_postings_id i b)) d)
                = Some (200, PostingDoc (doc (put_postings_assign w b p)))
              \<and> after (serve w authorization (Resource (Put_postings_id i b)) d)
                = d\<lparr>postings := replace1 p (doc (put_postings_assign w b p)) (postings d)\<rparr>
         else reply (serve w authorization (Resource (Put_postings_id i b)) d) = None
              \<and> thrown (serve w authorization (Resource (Put_postings_id i b)) d)
                = Some ValidationError
              \<and> after (serve w authorization (Resource (Put_postings_id i b)) d) = d"
    by (simp add: serve_put_postings_found [OF auth cast found] out_defs)
next
  fix s
  assume auth: "matching_accessToken authorization (users d) = Some u"
    and cast: "castObjectId w i = Some oid"
    and found: "find (\<lambda>p. posting_id p = oid \<and> userName p = name u) (postings d) = Some p"
    and stg: "body_field b ''stage'' = JString s" and enum: "s \<in> set stage_enum"
    and differs: "s \<noteq> stage p"
    and title: "\<not> truthy (body_field b ''jobTitle'') \<or> (\<exists>t. body_field b ''jobTitle'' = JString t)"
    and firm: "\<not> truthy (body_field b ''company'') \<or> (\<exists>t. body_field b ''company'' = JString t)"
  let ?p' = "doc (put_postings_assign w b p)"
  from enum have ne: "s \<noteq> []"
    by (auto simp: stage_enum_def)
  have stage': "stage ?p' = s"
    using ne by (simp add: put_postings_assign_doc stg cast_path_js_or)
  have time: "lastStageChange ?p' = clock w 0"
    using ne differs by (simp add: put_postings_assign_doc stg)
  have "\<not> invalid (put_postings_assign w b p)"
    using cast_path_string_or_falsy [OF title] cast_path_string_or_falsy [OF firm]
    by (simp add: put_postings_assign_invalid stg cast_path_js_or ne)
  then have valid: "Posting_validate (put_postings_assign w b p)"
    using enum stage' by (simp add: Posting_validate_def)
  from find_SomeD [OF found] have "p \<in> set (postings d)"
    by simp
  then have "?p' \<in> set (postings (after (serve w authorization (Resource (Put_postings_id i b)) d)))"
    by (simp add: serve_put_postings_found [OF auth cast found] valid out_defs in_set_replace1)
  moreover have "reply (serve w authorization (Resource (Put_postings_id i b)) d)
                   = Some (200, PostingDoc ?p')"
    by (simp add: serve_put_postings_found [OF auth cast found] valid out_defs)
  ultimately show "\<exists>p'. reply (serve w authorization (Resource (Put_postings_id i b)) d)
                     = Some (200, PostingDoc p')
                   \<and> p' \<in> set (postings (after (serve w authorization (Resource (Put_postings_id i b)) d)))
                   \<and> stage p' = s \<and> lastStageChange p' = clock w 0"
    using stage' time by blast
qed


theorem lastStageChange_rule_witness:
  "matching_accessToken (Some ''T'') (users sample_db) = Some alice
   \<and> castObjectId sample_world alice_posting_ref = Some 10
   \<and> find (\<lambda>p. posting_id p = 10 \<and> userName p = name alice) (postings sample_db) = Some alice_posting
   \<and> Posting_validate (put_postings_assign sample_world [''stage'' \<mapsto> JString ''interview''] alice_posting)
   \<and> lastStageChange (doc (put_postings_assign sample_world [''stage'' \<mapsto> JString ''interview'']
        alice_posting)) = 1000
   \<and> reply (serve sample_world (Some ''T'')
        (Resource (Put_postings_id alice_posting_ref [''stage'' \<mapsto> JString ''interview''])) sample_db)
       = Some (200, PostingDoc (doc (put_postings_assign sample_world
            [''stage'' \<mapsto> JString ''interview''] alice_posting)))
   \<and> lastStageChange (doc (put_postings_assign sample_world [''stage'' \<mapsto> JString ''applied'']
        alice_posting)) = 5
   \<and> lastStageChange (doc (put_postings_assign sample_world [''jobTitle'' \<mapsto> JString ''Lead'']
        alice_posting)) = 5"
proof -
  have auth: "matching_accessToken (Some ''T'') (users sample_db) = Some alice"
    by (simp add: matching_accessToken_def sample_defs)
  have found: "find (\<lambda>p. posting_id p = 10 \<and> userName p = name alice) (postings sample_db)
      = Some alice_posting"
    by (simp add: sample_defs)
  have valid: "Posting_validate (put_postings_assign sample_world
      [''stage'' \<mapsto> JString ''interview''] alice_posting)"
    by (simp add: eval_defs sample_defs)
  have stage: "stage alice_posting = ''applied''" "lastStageChange alice_posting = 5"
    "clock sample_world 0 = 1000"
    by (simp_all add: sample_defs)
  from lastStageChange_rule [where w = sample_world and b = "[''stage'' \<mapsto> JString ''interview'']"
      and p = alice_posting and authorization = "Some ''T''" and d = sample_db and u = alice
      and i = alice_posting_ref and oid = 10]
    lastStageChange_rule [where w = sample_world and b = "[''stage'' \<mapsto> JString ''applied'']"
      and p = alice_posting and authorization = "Some ''T''" and d = sample_db and u = alice
      and i = alice_posting_ref and oid = 10]
    lastStageChange_rule [where w = sample_world and b = "[''jobTitle'' \<mapsto> JString ''Lead'']"
      and p = alice_posting and authorization = "Some ''T''" and d = sample_db and u = alice
      and i = alice_posting_ref and oid = 10]
    auth sample_refs(1) found valid
  show ?thesis
    by (simp add: body_field_def stage)
qed

section \<open>Partial merge on update\<close>

lemma merge_string_path:
  "\<not> truthy v \<Longrightarrow> fst (cast_path (js_or v (JString old)) old) = old"
  "v = JString s \<Longrightarrow> s \<noteq> [] \<Longrightarrow> fst (cast_path (js_or v (JString old)) old) = s"
  "truthy v \<Longrightarrow> \<not> snd (cast_path (js_or v (JString old)) old) \<Longrightarrow>
     castString v = Str (fst (cast_path (js_or v (JString old)) old))"
  by (auto simp: cast_path_js_or split: cast.splits)

lemma merge_notes_path:
  "\<not> truthy v \<Longrightarrow> fst (cast_notes (js_or v (notes_value old)) old) = old"
  "v = JString s \<Longrightarrow> s \<noteq> [] \<Longrightarrow> fst (cast_notes (js_or v (notes_value old)) old) = Some s"
  "truthy v \<Longrightarrow> \<not> snd (cast_notes (js_or v (notes_value old)) old) \<Longrightarrow>
     \<exists>s. castString v = Str s \<and> fst (cast_notes (js_or v (notes_value old)) old) = Some s"
  by (auto simp: cast_notes_js_or split: cast.splits)

lemma put_postings_merge:
  "(\<not> truthy (body_field b ''jobTitle'') \<longrightarrow> jobTitle (doc (put_postings_assign w b p)) = jobTitle p)
   \<and> (\<not> truthy (body_field b ''company'') \<longrightarrow> company (doc (put_postings_assign w b p)) = company p)
   \<and> (\<not> truthy (body_field b ''stage'') \<longrightarrow> stage (doc (put_postings_assign w b p)) = stage p)
   \<and> (\<forall>s. body_field b ''jobTitle'' = JString s \<longrightarrow> s \<noteq> [] \<longrightarrow>
         jobTitle (doc (put_postings_assign w b p)) = s)
   \<and> (\<forall>s. body_field b ''company'' = JString s \<longrightarrow> s \<noteq> [] \<longrightarrow>
         company (doc (put_postings_assign w b p)) = s)
   \<and> (\<forall>s. body_field b ''stage'' = JString s \<longrightarrow> s \<noteq> [] \<longrightarrow>
         stage (doc (put_postings_assign w b p)) = s)
   \<and> (Posting_validate (put_postings_assign w b p) \<longrightarrow>
        (truthy (body_field b ''jobTitle'') \<longrightarrow>
           castString (body_field b ''jobTitle'') = Str (jobTitle (doc (put_postings_assign w b p))))
      \<and> (truthy (body_field b ''company'') \<longrightarrow>
           castString (body_field b ''company'') = Str (company (doc (put_postings_assign w b p))))
      \<and> (truthy (body_field b ''stage'') \<longrightarrow>
           castString (body_field b ''stage'') = Str (stage (doc (put_postings_assign w b p)))))"
  by (simp add: put_postings_assign_doc put_postings_assign_invalid Posting_validate_def
      merge_string_path)

lemma put_contacts_merge:
  "(\<not> truthy (body_field b ''name'') \<longrightarrow>
       contact_name (doc (put_contacts_assign b c)) = contact_name c)
   \<and> (\<not> truthy (body_field b ''company'') \<longrightarrow>
       contact_company (doc (put_contacts_assign b c)) = contact_company c)
   \<and> (\<not> truthy (body_field b ''notes'') \<longrightarrow>
       contact_notes (doc (put_contacts_assign b c)) = contact_notes c)
   \<and> (\<forall>s. body_field b ''name'' = JString s \<longrightarrow> s \<noteq> [] \<longrightarrow>
         contact_name (doc (put_contacts_assign b c)) = s)
   \<and> (\<forall>s. body_field b ''company'' = JString s \<longrightarrow> s \<noteq> [] \<longrightarrow>
         contact_company (doc (put_contacts_assign b c)) = s)
   \<and> (\<forall>s. body_field b ''notes'' = JString s \<longrightarrow> s \<noteq> [] \<longrightarrow>
         contact_notes (doc (put_contacts_assign b c)) = Some s)
   \<and> (Contact_validate (put_contacts_assign b c) \<longrightarrow>
        (truthy (body_field b ''name'') \<longrightarrow>
           castString (body_field b ''name'') = Str (contact_name (doc (put_contacts_assign b c))))
      \<and> (truthy (body_field b ''company'') \<longrightarrow>
           castString (body_field b ''company'') = Str (contact_company (doc (put_contacts_assign b c))))
      \<and> (truthy (body_field b ''notes'') \<longrightarrow>
           (\<exists>s. castString (body_field b ''notes'') = Str s
              \<and> contact_notes (doc (put_contacts_assign b c)) = Some s)))"
  by (simp add: put_contacts_assign_doc put_contacts_assign_invalid Contact_validate_def
      merge_string_path merge_notes_path)


lemma cast_path_failed:
  "snd (cast_path (js_or v (JString old)) old) \<longleftrightarrow> truthy v \<and> castString v = Uncastable"
  using truthy_not_Nullish [of v]
  by (auto simp: cast_path_js_or split: cast.splits)

lemma cast_notes_failed:
  "snd (cast_notes (js_or v (notes_value old)) old) \<longleftrightarrow> truthy v \<and> castString v = Uncastable"
  using truthy_not_Nullish [of v]
  by (auto simp: cast_notes_js_or split: cast.splits)

lemma Posting_validate_assign:
  "Posting_validate (put_postings_assign w b p) \<longleftrightarrow>
     \<not> (truthy (body_field b ''jobTitle'') \<and> castString (body_field b ''jobTitle'') = Uncastable)
     \<and> \<not> (truthy (body_field b ''company'') \<and> castString (body_field b ''company'') = Uncastable)
     \<and> \<not> (truthy (body_field b ''stage'') \<and> castString (body_field b ''stage'') = Uncastable)
     \<and> stage (doc (put_postings_assign w b p)) \<in> set stage_enum"
  by (simp only: Posting_validate_def put_postings_assign_invalid cast_path_failed de_Morgan_disj
      conj_assoc)

lemma Contact_validate_assign:
  "Contact_validate (put_contacts_assign b c) \<longleftrightarrow>
     \<not> (truthy (body_field b ''name'') \<and> castString (body_field b ''name'') = Uncastable)
     \<and> \<not> (truthy (body_field b ''company'') \<and> castString (body_field b ''company'') = Uncastable)
     \<and> \<not> (truthy (body_field b ''notes'') \<and> castString (body_field b ''notes'') = Uncastable)
     \<and> contact_name (doc (put_contacts_assign b c)) \<noteq> []
     \<and> contact_company (doc (put_contacts_assign b c)) \<noteq> []
     \<and> contact_userName c \<noteq> []"
  by (simp only: Contact_validate_def put_contacts_assign_invalid cast_path_failed
      cast_notes_failed de_Morgan_disj conj_assoc userName_assign_c)

text \<open>
  Claim C4, as stated, fails for a truthy value that the String type of the schema cannot
  cast: an update of the caller's posting with \<open>jobTitle\<close> an array is rejected by
  \<open>save()\<close>, so the truthy field replaces nothing and the store is as before.
\<close>

theorem put_partial_merge_counterexample:
  "truthy (body_field array_title_body ''jobTitle'')
   \<and> alice_posting \<in> set (postings sample_db)
   \<and> castObjectId sample_world alice_posting_ref = Some (posting_id alice_posting)
   \<and> userName alice_posting = name alice
   \<and> reply (serve sample_world (Some ''T'')
        (Resource (Put_postings_id alice_posting_ref array_title_body)) sample_db) = None
   \<and> thrown (serve sample_world (Some ''T'')
        (Resource (Put_postings_id alice_posting_ref array_title_body)) sample_db)
       = Some ValidationError
   \<and> after (serve sample_world (Some ''T'')
        (Resource (Put_postings_id alice_posting_ref array_title_body)) sample_db) = sample_db"
proof -
  have auth: "matching_accessToken (Some ''T'') (users sample_db) = Some alice"
    by (simp add: matching_accessToken_def sample_defs)
  have found: "find (\<lambda>p. posting_id p = 10 \<and> userName p = name alice) (postings sample_db)
      = Some alice_posting"
    by (simp add: sample_defs)
  have title: "body_field array_title_body ''jobTitle'' = JArray [JString ''Lead'']"
    by (simp add: body_field_def array_title_body_def)
  have rejected: "\<not> Posting_validate (put_postings_assign sample_world array_title_body
      alice_posting)"
    by (simp add: Posting_validate_assign title)
  from serve_put_postings_found [OF auth sample_refs(1) found, of array_title_body] rejected
  show ?thesis
    by (simp add: out_defs title sample_refs) (simp add: sample_defs)
qed

text \<open>
  Claim C4, amended. For every update of a posting (\<open>jobTitle\<close>, \<open>company\<close>, \<open>stage\<close>)
  or contact (\<open>name\<close>, \<open>company\<close>, \<open>notes\<close>) of the caller that \<open>save()\<close> accepts:
  each field that is present and truthy in the request replaces the stored value, as its
  String cast (the value itself when it is a string), and each field that is absent or
  falsy leaves the stored value unchanged; the merged document \<open>p'\<close> (\<open>c'\<close>) is stored
  in place of the one found and sent back with status 200. \<open>save()\<close> accepts exactly when
  no truthy field is a value the String type cannot cast and the resulting \<open>stage\<close> is one
  of the four enum values (for a contact: \<open>name\<close>, \<open>company\<close> and \<open>userName\<close> are not
  empty); when it rejects, nothing is stored and the handler sends nothing.
\<close>

theorem put_partial_merge:
  fixes w :: world and b :: body and p :: posting and c :: contact
  defines "p' \<equiv> doc (put_postings_assign w b p)"
    and "c' \<equiv> doc (put_contacts_assign b c)"
  assumes auth: "matching_accessToken authorization (users d) = Some u"
    and cast: "castObjectId w i = Some oid"
  shows
  "(find (\<lambda>p. posting_id p = oid \<and> userName p = name u) (postings d) = Some p \<longrightarrow>
     (Posting_validate (put_postings_assign w b p) \<longleftrightarrow>
        \<not> (truthy (body_field b ''jobTitle'') \<and> castString (body_field b ''jobTitle'') = Uncastable)
        \<and> \<not> (truthy (body_field b ''company'') \<and> castString (body_field b ''company'') = Uncastable)
        \<and> \<not> (truthy (body_field b ''stage'') \<and> castString (body_field b ''stage'') = Uncastable)
        \<and> stage p' \<in> set stage_enum)
     \<and> (if Posting_validate (put_postings_assign w b p)
        then reply (serve w authorization (Resource (Put_postings_id i b)) d)
               = Some (200, PostingDoc p')
             \<and> after (serve w authorization (Resource (Put_postings_id i b)) d)
               = d\<lparr>postings := replace1 p p' (postings d)\<rparr>
             \<and> (if truthy (body_field b ''jobTitle'')
                then castString (body_field b ''jobTitle'') = Str (jobTitle p')
                else jobTitle p' = jobTitle p)
             \<and> (if truthy (body_field b ''company'')
                then castString (body_field b ''company'') = Str (company p')
                else company p' = company p)
             \<and> (if truthy (body_field b ''stage'')
                then castString (body_field b ''stage'') = Str (stage p')
                else stage p' = stage p)
        else reply (serve w authorization (Resource (Put_postings_id i b)) d) = None
             \<and> thrown (serve w authorization (Resource (Put_postings_id i b)) d)
               = Some ValidationError
             \<and> after (serve w authorization (Resource (Put_postings_id i b)) d) = d))
   \<and> (find (\<lambda>c. contact_id c = oid \<and> contact_userName c = name u) (contacts d) = Some c \<longrightarrow>
     (Contact_validate (put_contacts_assign b c) \<longleftrightarrow>
        \<not> (truthy (body_field b ''name'') \<and> castString (body_field b ''name'') = Uncastable)
        \<and> \<not> (truthy (body_field b ''company'') \<and> castString (body_field b ''company'') = Uncastable)
        \<and> \<not> (truthy (body_field b ''notes'') \<and> castString (body_field b ''notes'') = Uncastable)
        \<and> contact_name c' \<noteq> [] \<and> contact_company c' \<noteq> [] \<and> contact_userName c \<noteq> [])
     \<and> (if Contact_validate (put_contacts_assign b c)
        then reply (serve w authorization (Resource (Put_contacts_id i b)) d)
               = Some (200, ContactDoc c')
             \<and> after (serve w authorization (Resource (Put_contacts_id i b)) d)
               = d\<lparr>contacts := replace1 c c' (contacts d)\<rparr>
             \<and> (if truthy (body_field b ''name'')
                then castString (body_field b ''name'') = Str (contact_name c')
                else contact_name c' = contact_name c)
             \<and> (if truthy (body_field b ''company'')
                then castString (body_field b ''company'') = Str (contact_company c')
                else contact_company c' = contact_company c)
             \<and> (if truthy (body_field b ''notes'')
                then \<exists>s. castString (body_field b ''notes'') = Str s \<and> contact_notes c' = Some s
                else contact_notes c' = contact_notes c)
        else reply (serve w authorization (Resource (Put_contacts_id i b)) d) = None
             \<and> thrown (serve w authorization (Resource (Put_contacts_id i b)) d)
               = Some ValidationError
             \<and> after (serve w authorization (Resource (Put_contacts_id i b)) d) = d))"
proof (intro conjI impI)
  assume found: "find (\<lambda>p. posting_id p = oid \<and> userName p = name u) (postings d) = Some p"
  show "Posting_validate (put_postings_assign w b p) \<longleftrightarrow>
        \<not> (truthy (body_field b ''jobTitle'') \<and> castString (body_field b ''jobTitle'') = Uncastable)
        \<and> \<not> (truthy (body_field b ''company'') \<and> castString (body_field b ''company'') = Uncastable)
        \<and> \<not> (truthy (body_field b ''stage'') \<and> castString (body_field b ''stage'') = Uncastable)
        \<and> stage p' \<in> set stage_enum"
    unfolding p'_def by (rule Posting_validate_assign)
  show "if Posting_validate (put_postings_assign w b p)
        then reply (serve w authorization (Resource (Put_postings_id i b)) d)
               = Some (200, PostingDoc p')
             \<and> after (serve w authorization (Resource (Put_postings_id i b)) d)
               = d\<lparr>postings := replace1 p p' (postings d)\<rparr>
             \<and> (if truthy (body_field b ''jobTitle'')
                then castString (body_field b ''jobTitle'') = Str (jobTitle p')
                else jobTitle p' = jobTitle p)
             \<and> (if truthy (body_field b ''company'')
                then castString (body_field b ''company'') = Str (company p')
                else company p' = company p)
             \<and> (if truthy (body_field b ''stage'')
                then castString (body_field b ''stage'') = Str (stage p')
                else stage p' = stage p)
        else reply (serve w authorization (Resource (Put_postings_id i b)) d) = None
             \<and> thrown (serve w authorization (Resource (Put_postings_id i b)) d)
               = Some ValidationError
             \<and> after (serve w authorization (Resource (Put_postings_id i b)) d) = d"
    using put_postings_merge [of b w p]
    by (simp add: serve_put_postings_found [OF auth cast found] out_defs p'_def)
next
  assume found: "find (\<lambda>c. contact_id c = oid \<and> contact_userName c = name u) (contacts d) = Some c"
  show "Contact_validate (put_contacts_assign b c) \<longleftrightarrow>
        \<not> (truthy (body_field b ''name'') \<and> castString (body_field b ''name'') = Uncastable)
        \<and> \<not> (truthy (body_field b ''company'') \<and> castString (body_field b ''company'') = Uncastable)
        \<and> \<not> (truthy (body_field b ''notes'') \<and> castString (body_field b ''notes'') = Uncastable)
        \<and> contact_name c' \<noteq> [] \<and> contact_company c' \<noteq> [] \<and> contact_userName c \<noteq> []"
    unfolding c'_def by (rule Contact_validate_assign)
  show "if Contact_validate (put_contacts_assign b c)
        then reply (serve w authorization (Resource (Put_contacts_id i b)) d)
               = Some (200, ContactDoc c')
             \<and> after (serve w authorization (Resource (Put_contacts_id i b)) d)
               = d\<lparr>contacts := replace1 c c' (contacts d)\<rparr>
             \<and> (if truthy (body_field b ''name'')
                then castString (body_field b ''name'') = Str (contact_name c')
                else contact_name c' = contact_name c)
             \<and> (if truthy (body_field b ''company'')
                then castString (body_field b ''company'') = Str (contact_company c')
                else contact_company c' = contact_company c)
             \<and> (if truthy (body_field b ''notes'')
                then \<exists>s. castString (body_field b ''notes'') = Str s \<and> contact_notes c' = Some s
                else contact_notes c' = contact_notes c)
        else reply (serve w authorization (Resource (Put_contacts_id i b)) d) = None
             \<and> thrown (serve w authorization (Resource (Put_contacts_id i b)) d)
               = Some ValidationError
             \<and> after (serve w authorization (Resource (Put_contacts_id i b)) d) = d"
    using put_contacts_merge [of b c]
    by (simp add: serve_put_contacts_found [OF auth cast found] out_defs c'_def)
qed

theorem put_partial_merge_witness:
  "matching_accessToken (Some ''T'') (users sample_db) = Some alice
   \<and> castObjectId sample_world alice_posting_ref = Some 10
   \<and> find (\<lambda>p. posting_id p = 10 \<and> userName p = name alice) (postings sample_db)
       = Some alice_posting
   \<and> Posting_validate (put_postings_assign sample_world
        [''jobTitle'' \<mapsto> JNumber ''12'', ''stage'' \<mapsto> JString ''offer''] alice_posting)
   \<and> reply (serve sample_world (Some ''T'')
        (Resource (Put_postings_id alice_posting_ref
           [''jobTitle'' \<mapsto> JNumber ''12'', ''stage'' \<mapsto> JString ''offer''])) sample_db)
       = Some (200, PostingDoc (doc (put_postings_assign sample_world
            [''jobTitle'' \<mapsto> JNumber ''12'', ''stage'' \<mapsto> JString ''offer''] alice_posting)))
   \<and> jobTitle (doc (put_postings_assign sample_world
        [''jobTitle'' \<mapsto> JNumber ''12'', ''stage'' \<mapsto> JString ''offer''] alice_posting)) = ''12''
   \<and> company (doc (put_postings_assign sample_world
        [''jobTitle'' \<mapsto> JNumber ''12'', ''stage'' \<mapsto> JString ''offer''] alice_posting)) = ''Acme''
   \<and> stage (doc (put_postings_assign sample_world
        [''jobTitle'' \<mapsto> JNumber ''12'', ''stage'' \<mapsto> JString ''offer''] alice_posting)) = ''offer''
   \<and> castObjectId sample_world alice_contact_ref = Some 20
   \<and> find (\<lambda>c. contact_id c = 20 \<and> contact_userName c = name alice) (contacts sample_db)
       = Some alice_contact
   \<and> Contact_validate (put_contacts_assign [''notes'' \<mapsto> JString ''call back''] alice_contact)
   \<and> reply (serve sample_world (Some ''T'')
        (Resource (Put_contacts_id alice_contact_ref [''notes'' \<mapsto> JString ''call back'']))
        sample_db)
       = Some (200, ContactDoc (doc (put_contacts_assign [''notes'' \<mapsto> JString ''call back'']
            alice_contact)))
   \<and> contact_name (doc (put_contacts_assign [''notes'' \<mapsto> JString ''call back''] alice_contact))
       = ''Carol''
   \<and> contact_company (doc (put_contacts_assign [''notes'' \<mapsto> JString ''call back''] alice_contact))
       = ''Acme''
   \<and> contact_notes (doc (put_contacts_assign [''notes'' \<mapsto> JString ''call back''] alice_contact))
       = Some ''call back''"
proof -
  let ?pb = "[''jobTitle'' \<mapsto> JNumber ''12'', ''stage'' \<mapsto> JString ''offer'']"
  let ?cb = "[''notes'' \<mapsto> JString ''call back'']"
  have auth: "matching_accessToken (Some ''T'') (users sample_db) = Some alice"
    by (simp add: matching_accessToken_def sample_defs)
  have found_p: "find (\<lambda>p. posting_id p = 10 \<and> userName p = name alice) (postings sample_db)
      = Some alice_posting"
    by (simp add: sample_defs)
  have found_c: "find (\<lambda>c. contact_id c = 20 \<and> contact_userName c = name alice) (contacts sample_db)
      = Some alice_contact"
    by (simp add: sample_defs)
  have valid_p: "Posting_validate (put_postings_assign sample_world ?pb alice_posting)"
    by (simp add: eval_defs sample_defs)
  have valid_c: "Contact_validate (put_contacts_assign ?cb alice_contact)"
    by (simp add: eval_defs sample_defs)
  have stored: "company alice_posting = ''Acme''" "contact_name alice_contact = ''Carol''"
    "contact_company alice_contact = ''Acme''"
    by (simp_all add: sample_defs)
  have fields: "body_field ?pb ''jobTitle'' = JNumber ''12''" "body_field ?pb ''company'' = JUndefined"
    "body_field ?pb ''stage'' = JString ''offer''" "body_field ?cb ''name'' = JUndefined"
    "body_field ?cb ''company'' = JUndefined" "body_field ?cb ''notes'' = JString ''call back''"
    by (simp_all add: body_field_def)
  from put_partial_merge [OF auth sample_refs(1), where b = ?pb and p = alice_posting]
    found_p valid_p
  have posting: "reply (serve sample_world (Some ''T'')
        (Resource (Put_postings_id alice_posting_ref ?pb)) sample_db)
       = Some (200, PostingDoc (doc (put_postings_assign sample_world ?pb alice_posting)))"
    "jobTitle (doc (put_postings_assign sample_world ?pb alice_posting)) = ''12''"
    "company (doc (put_postings_assign sample_world ?pb alice_posting)) = ''Acme''"
    "stage (doc (put_postings_assign sample_world ?pb alice_posting)) = ''offer''"
    by (simp_all add: fields stored)
  from put_partial_merge [OF auth sample_refs(3), where b = ?cb and c = alice_contact]
    found_c valid_c
  have contact: "reply (serve sample_world (Some ''T'')
        (Resource (Put_contacts_id alice_contact_ref ?cb)) sample_db)
       = Some (200, ContactDoc (doc (put_contacts_assign ?cb alice_contact)))"
    "contact_name (doc (put_contacts_assign ?cb alice_contact)) = ''Carol''"
    "contact_company (doc (put_contacts_assign ?cb alice_contact)) = ''Acme''"
    "contact_notes (doc (put_contacts_assign ?cb alice_contact)) = Some ''call back''"
    by (simp_all add: fields stored)
  from auth sample_refs(1,3) found_p found_c valid_p valid_c posting contact
  show ?thesis
    by simp
qed

section \<open>The owner of a created record\<close>

lemma body_field_other: "k \<noteq> k' \<Longrightarrow> body_field (b(k' := v)) k = body_field b k"
  by (simp add: body_field_def)

lemma post_postings_ignores_userName:
  "post_postings w (b(''userName'' := v)) = post_postings w b"
  by (rule ext) (simp add: post_postings_def body_field_other)

lemma post_contacts_ignores_userName:
  "post_contacts w (b(''userName'' := v)) = post_contacts w b"
  by (rule ext) (simp add: post_contacts_def body_field_other)

lemma userName_new_Posting: "userName (doc (new_Posting w t c owner)) = owner"
  by (simp add: new_Posting_def split_beta)

lemma userName_new_Contact: "contact_userName (doc (new_Contact w n c t owner)) = owner"
  by (simp add: new_Contact_def split_beta)

lemma serve_post_postings:
  assumes auth: "matching_accessToken authorization (users d) = Some u"
  shows "serve w authorization (Resource (Post_postings b)) d =
     (if \<not> truthy (body_field b ''jobTitle'') \<or> \<not> truthy (body_field b ''company'')
      then (Inr (), \<lparr>store = d, statusCode = 400,
              sent = Some (400, ErrorMessage ''Could not create posting. Job title or company missing''),
              calls = [User_findOne_accessToken authorization]\<rparr>)
      else if Posting_validate (new_Posting w (body_field b ''jobTitle'') (body_field b ''company'') (name u))
      then (Inr (), \<lparr>store = d\<lparr>postings := postings d @
                        [doc (new_Posting w (body_field b ''jobTitle'') (body_field b ''company'') (name u))]\<rparr>,
              statusCode = 201,
              sent = Some (201, PostingDoc
                (doc (new_Posting w (body_field b ''jobTitle'') (body_field b ''company'') (name u)))),
              calls = [User_findOne_accessToken authorization,
                Posting_save (doc (new_Posting w (body_field b ''jobTitle'') (body_field b ''company'') (name u)))]\<rparr>)
      else (Inl ValidationError, \<lparr>store = d, statusCode = 200, sent = None,
              calls = [User_findOne_accessToken authorization,
                Posting_save (doc (new_Posting w (body_field b ''jobTitle'') (body_field b ''company'') (name u)))]\<rparr>))"
  by (simp add: serve_Resource_admitted [OF auth] fresh_def post_postings_def Posting_save_new_def
      io_defs Let_def)

lemma serve_post_contacts:
  assumes auth: "matching_accessToken authorization (users d) = Some u"
  shows "serve w authorization (Resource (Post_contacts b)) d =
     (if \<not> truthy (body_field b ''name'') \<or> \<not> truthy (body_field b ''company'')
      then (Inr (), \<lparr>store = d, statusCode = 400,
              sent = Some (400, ErrorMessage ''Name and company are required''),
              calls = [User_findOne_accessToken authorization]\<rparr>)
      else if Contact_validate (new_Contact w (body_field b ''name'') (body_field b ''company'')
                (body_field b ''notes'') (name u))
      then (Inr (), \<lparr>store = d\<lparr>contacts := contacts d @
                        [doc (new_Contact w (body_field b ''name'') (body_field b ''company'')
                           (body_field b ''notes'') (name u))]\<rparr>,
              statusCode = 201,
              sent = Some (201, ContactDoc
                (doc (new_Contact w (body_field b ''name'') (body_field b ''company'')
                           (body_field b ''notes'') (name u)))),
              calls = [User_findOne_accessToken authorization,
                Contact_save (doc (new_Contact w (body_field b ''name'') (body_field b ''company'')
                           (body_field b ''notes'') (name u)))]\<rparr>)
      else (Inl ValidationError, \<lparr>store = d, statusCode = 200, sent = None,
              calls = [User_findOne_accessToken authorization,
                Contact_save (doc (new_Contact w (body_field b ''name'') (body_field b ''company'')
                           (body_field b ''notes'') (name u)))]\<rparr>))"
  by (simp add: serve_Resource_admitted [OF auth] fresh_def post_contacts_def Contact_save_new_def
      io_defs Let_def)

text \<open>
  Claim C1. A \<open>userName\<close> property in the body of a create request has no effect at all: the
  request is served exactly as the one without it (or with any other value for it). For an
  authenticated caller \<open>u\<close>, creating a posting or a contact either stores nothing or appends
  exactly one record, whose \<open>userName\<close> is \<open>u\<close>'s name and which is sent back with status
  201. With \<open>jobTitle\<close> and \<open>company\<close> non-empty strings the posting is always created
  and stored with \<open>u\<close>'s name as owner; with \<open>name\<close> and \<open>company\<close> non-empty strings,
  \<open>notes\<close> a value the String type can cast (or absent) and \<open>u\<close>'s name not empty, the
  contact is always created and stored with \<open>u\<close>'s name as owner.
\<close>

theorem created_owner_is_caller:
  "serve w authorization (Resource (Post_postings (b(''userName'' := v)))) d
     = serve w authorization (Resource (Post_postings b)) d
   \<and> serve w authorization (Resource (Post_contacts (b(''userName'' := v)))) d
     = serve w authorization (Resource (Post_contacts b)) d
   \<and> (matching_accessToken authorization (users d) = Some u \<longrightarrow>
        (after (serve w authorization (Resource (Post_postings b)) d) = d
           \<and> (\<forall>p. reply (serve w authorization (Resource (Post_postings b)) d)
                     \<noteq> Some (201, PostingDoc p))
         \<or> (\<exists>p. after (serve w authorization (Resource (Post_postings b)) d)
                    = d\<lparr>postings := postings d @ [p]\<rparr>
                \<and> reply (serve w authorization (Resource (Post_postings b)) d)
                    = Some (201, PostingDoc p)
                \<and> userName p = name u))
      \<and> (after (serve w authorization (Resource (Post_contacts b)) d) = d
           \<and> (\<forall>c. reply (serve w authorization (Resource (Post_contacts b)) d)
                     \<noteq> Some (201, ContactDoc c))
         \<or> (\<exists>c. after (serve w authorization (Resource (Post_contacts b)) d)
                    = d\<lparr>contacts := contacts d @ [c]\<rparr>
                \<and> reply (serve w authorization (Resource (Post_contacts b)) d)
                    = Some (201, ContactDoc c)
                \<and> contact_userName c = name u))
      \<and> (\<forall>t c. body_field b ''jobTitle'' = JString t \<longrightarrow> t \<noteq> [] \<longrightarrow>
                body_field b ''company'' = JString c \<longrightarrow> c \<noteq> [] \<longrightarrow>
            reply (serve w authorization (Resource (Post_postings b)) d)
              = Some (201, PostingDoc \<lparr>posting_id = freshId w, jobTitle = t, company = c,
                   stage = ''applied'', createdAt = clock w 0, userName = name u,
                   lastStageChange = clock w 1\<rparr>)
            \<and> after (serve w authorization (Resource (Post_postings b)) d)
              = d\<lparr>postings := postings d @ [\<lparr>posting_id = freshId w, jobTitle = t, company = c,
                   stage = ''applied'', createdAt = clock w 0, userName = name u,
                   lastStageChange = clock w 1\<rparr>]\<rparr>)
      \<and> (\<forall>n c. body_field b ''name'' = JString n \<longrightarrow> n \<noteq> [] \<longrightarrow>
                body_field b ''company'' = JString c \<longrightarrow> c \<noteq> [] \<longrightarrow>
                castString (body_field b ''notes'') \<noteq> Uncastable \<longrightarrow> name u \<noteq> [] \<longrightarrow>
            reply (serve w authorization (Resource (Post_contacts b)) d)
              = Some (201, ContactDoc \<lparr>contact_id = freshId w, contact_name = n,
                   contact_company = c,
                   contact_notes =
                     (case castString (body_field b ''notes'') of
                        Str s \<Rightarrow> Some s
                      | _ \<Rightarrow> if body_field b ''notes'' = JUndefined then Some [] else None),
                   contact_userName = name u\<rparr>)
            \<and> after (serve w authorization (Resource (Post_contacts b)) d)
              = d\<lparr>contacts := contacts d @ [\<lparr>contact_id = freshId w, contact_name = n,
                   contact_company = c,
                   contact_notes =
                     (case castString (body_field b ''notes'') of
                        Str s \<Rightarrow> Some s
                      | _ \<Rightarrow> if body_field b ''notes'' = JUndefined then Some [] else None),
                   contact_userName = name u\<rparr>]\<rparr>))"
proof (intro conjI impI allI)
  show "serve w authorization (Resource (Post_postings (b(''userName'' := v)))) d
     = serve w authorization (Resource (Post_postings b)) d"
    by (simp add: serve_def post_postings_ignores_userName)
  show "serve w authorization (Resource (Post_contacts (b(''userName'' := v)))) d
     = serve w authorization (Resource (Post_contacts b)) d"
    by (simp add: serve_def post_contacts_ignores_userName)
next
  assume auth: "matching_accessToken authorization (users d) = Some u"
  show "after (serve w authorization (Resource (Post_postings b)) d) = d
           \<and> (\<forall>p. reply (serve w authorization (Resource (Post_postings b)) d)
                     \<noteq> Some (201, PostingDoc p))
         \<or> (\<exists>p. after (serve w authorization (Resource (Post_postings b)) d)
                    = d\<lparr>postings := postings d @ [p]\<rparr>
                \<and> reply (serve w authorization (Resource (Post_postings b)) d)
                    = Some (201, PostingDoc p)
                \<and> userName p = name u)"
    by (simp add: serve_post_postings [OF auth] out_defs userName_new_Posting)
  show "after (serve w authorization (Resource (Post_contacts b)) d) = d
           \<and> (\<forall>c. reply (serve w authorization (Resource (Post_contacts b)) d)
                     \<noteq> Some (201, ContactDoc c))
         \<or> (\<exists>c. after (serve w authorization (Resource (Post_contacts b)) d)
                    = d\<lparr>contacts := contacts d @ [c]\<rparr>
                \<and> reply (serve w authorization (Resource (Post_contacts b)) d)
                    = Some (201, ContactDoc c)
                \<and> contact_userName c = name u)"
    by (simp add: serve_post_contacts [OF auth] out_defs userName_new_Contact)
next
  fix t c
  assume auth: "matching_accessToken authorization (users d) = Some u"
    and "body_field b ''jobTitle'' = JString t" "t \<noteq> []"
    and "body_field b ''company'' = JString c" "c \<noteq> []"
  then show "reply (serve w authorization (Resource (Post_postings b)) d)
              = Some (201, PostingDoc \<lparr>posting_id = freshId w, jobTitle = t, company = c,
                   stage = ''applied'', createdAt = clock w 0, userName = name u,
                   lastStageChange = clock w 1\<rparr>)"
    and "after (serve w authorization (Resource (Post_postings b)) d)
              = d\<lparr>postings := postings d @ [\<lparr>posting_id = freshId w, jobTitle = t, company = c,
                   stage = ''applied'', createdAt = clock w 0, userName = name u,
                   lastStageChange = clock w 1\<rparr>]\<rparr>"
    by (simp_all add: serve_post_postings [OF auth] out_defs new_Posting_def cast_path_def
        Posting_validate_def stage_enum_def)
next
  fix n c
  assume auth: "matching_accessToken authorization (users d) = Some u"
    and fields: "body_field b ''name'' = JString n" "n \<noteq> []"
      "body_field b ''company'' = JString c" "c \<noteq> []"
    and castable: "castString (body_field b ''notes'') \<noteq> Uncastable"
    and owner: "name u \<noteq> []"
  let ?c = "\<lparr>contact_id = freshId w, contact_name = n, contact_company = c,
              contact_notes =
                (case castString (body_field b ''notes'') of
                   Str s \<Rightarrow> Some s
                 | _ \<Rightarrow> if body_field b ''notes'' = JUndefined then Some [] else None),
              contact_userName = name u\<rparr>"
  have new: "new_Contact w (JString n) (JString c) (body_field b ''notes'') (name u)
      = \<lparr>doc = ?c, invalid = False\<rparr>"
    using castable
    by (cases "castString (body_field b ''notes'')")
       (auto simp: new_Contact_def cast_path_def cast_notes_def)
  have "serve w authorization (Resource (Post_contacts b)) d =
      (Inr (), \<lparr>store = d\<lparr>contacts := contacts d @ [?c]\<rparr>, statusCode = 201,
          sent = Some (201, ContactDoc ?c),
          calls = [User_findOne_accessToken authorization, Contact_save ?c]\<rparr>)"
    using fields owner
    by (simp add: serve_post_contacts [OF auth] new Contact_validate_def)
  then show "reply (serve w authorization (Resource (Post_contacts b)) d) = Some (201, ContactDoc ?c)"
    and "after (serve w authorization (Resource (Post_contacts b)) d)
           = d\<lparr>contacts := contacts d @ [?c]\<rparr>"
    by (simp_all add: out_defs)
qed


theorem created_owner_is_caller_witness:
  "matching_accessToken (Some ''T'') (users sample_db) = Some alice
   \<and> body_field [''jobTitle'' \<mapsto> JString ''QA'', ''company'' \<mapsto> JString ''Globex''] ''jobTitle''
       = JString ''QA''
   \<and> body_field [''jobTitle'' \<mapsto> JString ''QA'', ''company'' \<mapsto> JString ''Globex''] ''company''
       = JString ''Globex''
   \<and> reply (serve sample_world (Some ''T'')
        (Resource (Post_postings
           ([''jobTitle'' \<mapsto> JString ''QA'', ''company'' \<mapsto> JString ''Globex'']
              (''userName'' \<mapsto> JString ''bob'')))) sample_db)
       = Some (201, PostingDoc \<lparr>posting_id = 7, jobTitle = ''QA'', company = ''Globex'',
            stage = ''applied'', createdAt = 1000, userName = ''alice'',
            lastStageChange = 1001\<rparr>)
   \<and> body_field [''name'' \<mapsto> JString ''Eve'', ''company'' \<mapsto> JString ''Globex''] ''name''
       = JString ''Eve''
   \<and> castString (body_field [''name'' \<mapsto> JString ''Eve'', ''company'' \<mapsto> JString ''Globex'']
        ''notes'') \<noteq> Uncastable
   \<and> name alice \<noteq> []
   \<and> reply (serve sample_world (Some ''T'')
        (Resource (Post_contacts
           ([''name'' \<mapsto> JString ''Eve'', ''company'' \<mapsto> JString ''Globex'']
              (''userName'' \<mapsto> JString ''bob'')))) sample_db)
       = Some (201, ContactDoc \<lparr>contact_id = 7, contact_name = ''Eve'',
            contact_company = ''Globex'', contact_notes = Some [],
            contact_userName = ''alice''\<rparr>)
   \<and> contacts (after (serve sample_world (Some ''T'')
        (Resource (Post_contacts
           ([''name'' \<mapsto> JString ''Eve'', ''company'' \<mapsto> JString ''Globex'']
              (''userName'' \<mapsto> JString ''bob'')))) sample_db))
       = contacts sample_db @ [\<lparr>contact_id = 7, contact_name = ''Eve'',
            contact_company = ''Globex'', contact_notes = Some [],
            contact_userName = ''alice''\<rparr>]"
proof -
  let ?pb = "[''jobTitle'' \<mapsto> JString ''QA'', ''company'' \<mapsto> JString ''Globex'']"
  let ?cb = "[''name'' \<mapsto> JString ''Eve'', ''company'' \<mapsto> JString ''Globex'']"
  let ?eve = "\<lparr>contact_id = 7, contact_name = ''Eve'', contact_company = ''Globex'',
      contact_notes = Some [], contact_userName = ''alice''\<rparr>"
  have auth: "matching_accessToken (Some ''T'') (users sample_db) = Some alice"
    by (simp add: matching_accessToken_def sample_defs)
  have world: "freshId sample_world = 7" "clock sample_world 0 = 1000"
    "clock sample_world (Suc 0) = 1001" "name alice = ''alice''"
    by (simp_all add: sample_defs)
  have fields: "body_field ?pb ''jobTitle'' = JString ''QA''"
    "body_field ?pb ''company'' = JString ''Globex''"
    "body_field ?cb ''name'' = JString ''Eve''" "body_field ?cb ''company'' = JString ''Globex''"
    "body_field ?cb ''notes'' = JUndefined"
    by (simp_all add: body_field_def)
  have more: "castString (body_field ?cb ''notes'') \<noteq> Uncastable" "name alice \<noteq> []"
    by (simp_all add: fields world)
  note posted = created_owner_is_caller [where w = sample_world and authorization = "Some ''T''"
      and b = ?pb and v = "Some (JString ''bob'')" and d = sample_db and u = alice]
  note added = created_owner_is_caller [where w = sample_world and authorization = "Some ''T''"
      and b = ?cb and v = "Some (JString ''bob'')" and d = sample_db and u = alice]
  from posted have same_p: "serve sample_world (Some ''T'')
        (Resource (Post_postings (?pb(''userName'' \<mapsto> JString ''bob'')))) sample_db
      = serve sample_world (Some ''T'') (Resource (Post_postings ?pb)) sample_db"
    by (rule conjunct1)
  from added have same_c: "serve sample_world (Some ''T'')
        (Resource (Post_contacts (?cb(''userName'' \<mapsto> JString ''bob'')))) sample_db
      = serve sample_world (Some ''T'') (Resource (Post_contacts ?cb)) sample_db"
    by blast
  from posted auth fields have posting:
    "reply (serve sample_world (Some ''T'') (Resource (Post_postings ?pb)) sample_db)
       = Some (201, PostingDoc \<lparr>posting_id = freshId sample_world, jobTitle = ''QA'',
            company = ''Globex'', stage = ''applied'', createdAt = clock sample_world 0,
            userName = name alice, lastStageChange = clock sample_world 1\<rparr>)"
    by blast
  from added auth fields more have
    "reply (serve sample_world (Some ''T'') (Resource (Post_contacts ?cb)) sample_db)
       = Some (201, ContactDoc \<lparr>contact_id = freshId sample_world, contact_name = ''Eve'',
            contact_company = ''Globex'',
            contact_notes = (case castString (body_field ?cb ''notes'') of
                        Str s \<Rightarrow> Some s
                      | _ \<Rightarrow> if body_field ?cb ''notes'' = JUndefined then Some [] else None),
            contact_userName = name alice\<rparr>)
     \<and> after (serve sample_world (Some ''T'') (Resource (Post_contacts ?cb)) sample_db)
       = sample_db\<lparr>contacts := contacts sample_db @
          [\<lparr>contact_id = freshId sample_world, contact_name = ''Eve'',
            contact_company = ''Globex'',
            contact_notes = (case castString (body_field ?cb ''notes'') of
                        Str s \<Rightarrow> Some s
                      | _ \<Rightarrow> if body_field ?cb ''notes'' = JUndefined then Some [] else None),
            contact_userName = name alice\<rparr>]\<rparr>"
    by blast
  then have contact:
    "reply (serve sample_world (Some ''T'') (Resource (Post_contacts ?cb)) sample_db)
       = Some (201, ContactDoc ?eve)"
    "contacts (after (serve sample_world (Some ''T'') (Resource (Post_contacts ?cb)) sample_db))
       = contacts sample_db @ [?eve]"
    by (simp_all add: fields world)
  from same_p same_c auth fields more posting contact show ?thesis
    by (simp add: world)
qed

section \<open>Creating users\<close>

lemma length_toString_hex: "length (toString_hex bs) = 2 * length bs"
  by (induction bs) (simp_all add: toString_hex_def hex_byte_def)

lemma hex_digit_in: "hex_digit d \<in> set ''0123456789abcdef''"
  unfolding hex_digit_def by (rule nth_mem) simp

lemma set_toString_hex: "set (toString_hex bs) \<subseteq> set ''0123456789abcdef''"
  using hex_digit_in by (induction bs) (auto simp: toString_hex_def hex_byte_def)

lemma length_default_accessToken: "length (default_accessToken w) = 256"
  by (simp add: default_accessToken_def length_toString_hex randomBytes_def)

lemma set_default_accessToken: "set (default_accessToken w) \<subseteq> set ''0123456789abcdef''"
  by (simp only: default_accessToken_def set_toString_hex)

lemma serve_post_users_missing:
  assumes "\<not> truthy (body_field b ''user'') \<or> \<not> truthy (body_field b ''email'')
           \<or> \<not> truthy (body_field b ''password'')"
  shows "serve w authorization (Post_users b) d =
     (Inr (), \<lparr>store = d, statusCode = 400,
        sent = Some (400, ErrorMessage ''Could not create user. User, email or password missing''),
        calls = []\<rparr>)"
  using assms by (auto simp: serve_def fresh_def post_users_def io_defs Let_def)

lemma serve_post_users_not_string:
  assumes "truthy (body_field b ''user'')" "truthy (body_field b ''email'')"
    "truthy (body_field b ''password'')" "\<forall>p. body_field b ''password'' \<noteq> JString p"
  shows "serve w authorization (Post_users b) d =
     (Inr (), \<lparr>store = d, statusCode = 400, sent = Some (400, ErrorObject IllegalArguments),
        calls = [Bcrypt_hashSync (body_field b ''password'')]\<rparr>)"
  using assms
  by (cases "body_field b ''password''")
     (auto simp: serve_def fresh_def post_users_def bcrypt_hashSync_def io_defs Let_def)

lemma serve_post_users_string:
  assumes "truthy (body_field b ''user'')" "truthy (body_field b ''email'')"
    "body_field b ''password'' = JString p" "p \<noteq> []"
  shows "serve w authorization (Post_users b) d =
     (let u = new_User w (body_field b ''user'') (hashSync w p) (body_field b ''email'');
          made = [Bcrypt_hashSync (JString p), User_save (doc u)]
      in if invalid u \<or> name (doc u) = [] \<or> email (doc u) = []
            \<or> \<not> email_validator (email (doc u)) \<or> password (doc u) = []
         then (Inr (), \<lparr>store = d, statusCode = 400,
                 sent = Some (400, ErrorObject ValidationError), calls = made\<rparr>)
         else if name (doc u) \<in> set (map name (users d)) \<or> email (doc u) \<in> set (map email (users d))
         then (Inr (), \<lparr>store = d, statusCode = 400,
                 sent = Some (400, ErrorObject DuplicateKey), calls = made\<rparr>)
         else (Inr (), \<lparr>store = d\<lparr>users := users d @ [doc u]\<rparr>, statusCode = 201,
                 sent = Some (201, UserDoc (doc u)), calls = made\<rparr>))"
  using assms
  by (simp add: serve_def fresh_def post_users_def bcrypt_hashSync_def User_save_new_def
      io_defs Let_def)


lemma email_validator_Nil: "\<not> email_validator []"
  by (simp add: email_validator_def)

lemma new_User_strings:
  "new_User w (JString n) h (JString e) =
     \<lparr>doc = \<lparr>user_id = freshId w, name = n, email = e, password = h,
              accessToken = default_accessToken w\<rparr>, invalid = False\<rparr>"
  by (simp add: new_User_def cast_path_def)

lemma new_User_cast:
  "castString v = Str n \<Longrightarrow> castString m = Str e \<Longrightarrow>
   new_User w v h m =
     \<lparr>doc = \<lparr>user_id = freshId w, name = n, email = e, password = h,
              accessToken = default_accessToken w\<rparr>, invalid = False\<rparr>"
  by (simp add: new_User_def cast_path_def)

lemma new_User_name: "castString v = Str n \<Longrightarrow> name (doc (new_User w v h m)) = n"
  by (simp add: new_User_def cast_path_def split_beta)

lemma new_User_email: "castString m = Str e \<Longrightarrow> email (doc (new_User w v h m)) = e"
  by (simp add: new_User_def cast_path_def split_beta)

lemma new_User_accessToken: "accessToken (doc (new_User w v h m)) = default_accessToken w"
  by (simp add: new_User_def split_beta)

lemma post_users_cases:
  obtains (missing) "\<not> truthy (body_field b ''user'') \<or> \<not> truthy (body_field b ''email'')
           \<or> \<not> truthy (body_field b ''password'')"
  | (not_string) "truthy (body_field b ''user'')" "truthy (body_field b ''email'')"
      "truthy (body_field b ''password'')" "\<forall>p. body_field b ''password'' \<noteq> JString p"
  | (string) p where "truthy (body_field b ''user'')" "truthy (body_field b ''email'')"
      "body_field b ''password'' = JString p" "p \<noteq> []"
  by (cases "body_field b ''password''") auto

lemma post_users_duplicate:
  assumes dup: "\<exists>u\<in>set (users d). castString (body_field b ''user'') = Str (name u)
                  \<or> castString (body_field b ''email'') = Str (email u)"
  shows "(\<exists>pl. reply (serve w authorization (Post_users b) d) = Some (400, pl))
         \<and> thrown (serve w authorization (Post_users b) d) = None
         \<and> after (serve w authorization (Post_users b) d) = d"
proof (cases b rule: post_users_cases)
  case missing
  then show ?thesis
    by (simp add: serve_post_users_missing out_defs)
next
  case not_string
  then show ?thesis
    by (simp add: serve_post_users_not_string out_defs)
next
  case (string p)
  from dup obtain u where u: "u \<in> set (users d)"
    and either: "castString (body_field b ''user'') = Str (name u)
                  \<or> castString (body_field b ''email'') = Str (email u)"
    by blast
  let ?new = "doc (new_User w (body_field b ''user'') (hashSync w p) (body_field b ''email''))"
  from either u have "name ?new \<in> set (map name (users d)) \<or> email ?new \<in> set (map email (users d))"
    by (auto simp: new_User_name new_User_email)
  then show ?thesis
    by (simp add: serve_post_users_string [OF string] out_defs Let_def)
qed

lemma post_users_created:
  assumes "reply (serve w authorization (Post_users b) d) = Some (201, UserDoc u)"
  shows "after (serve w authorization (Post_users b) d) = d\<lparr>users := users d @ [u]\<rparr>
         \<and> name u \<notin> set (map name (users d)) \<and> email u \<notin> set (map email (users d))
         \<and> accessToken u = default_accessToken w"
proof (cases b rule: post_users_cases)
  case missing
  with assms show ?thesis
    by (simp add: serve_post_users_missing out_defs)
next
  case not_string
  with assms show ?thesis
    by (simp add: serve_post_users_not_string out_defs)
next
  case (string p)
  with assms show ?thesis
    by (auto simp: serve_post_users_string [OF string] out_defs Let_def new_User_accessToken
        split: if_splits)
qed


text \<open>
  Claim C8, as stated, fails for a password that is present but not a string: with
  \<open>user\<close>, \<open>email\<close> and \<open>password\<close> all present, the email well-formed and name and
  email unused, a numeric password makes \<open>bcrypt.hashSync\<close> throw, which the handler's
  \<open>catch\<close> answers with 400; no user is created.
\<close>

theorem post_users_outcome_counterexample:
  "truthy (body_field numeric_signup_body ''user'')
   \<and> truthy (body_field numeric_signup_body ''email'')
   \<and> truthy (body_field numeric_signup_body ''password'')
   \<and> body_field numeric_signup_body ''user'' = JString ''carol''
   \<and> body_field numeric_signup_body ''email'' = JString ''c@x.com''
   \<and> email_validator ''c@x.com''
   \<and> ''carol'' \<notin> name ` set (users sample_db)
   \<and> ''c@x.com'' \<notin> email ` set (users sample_db)
   \<and> reply (serve sample_world None (Post_users numeric_signup_body) sample_db)
       = Some (400, ErrorObject IllegalArguments)
   \<and> after (serve sample_world None (Post_users numeric_signup_body) sample_db) = sample_db"
proof -
  have fields: "body_field numeric_signup_body ''user'' = JString ''carol''"
    "body_field numeric_signup_body ''email'' = JString ''c@x.com''"
    "body_field numeric_signup_body ''password'' = JNumber ''123''"
    by (simp_all add: body_field_def numeric_signup_body_def)
  have mail: "email_validator ''c@x.com''"
    by code_simp
  have unused: "''carol'' \<notin> name ` set (users sample_db)"
    "''c@x.com'' \<notin> email ` set (users sample_db)"
    by (simp_all add: sample_defs)
  have "serve sample_world None (Post_users numeric_signup_body) sample_db =
     (Inr (), \<lparr>store = sample_db, statusCode = 400,
        sent = Some (400, ErrorObject IllegalArguments),
        calls = [Bcrypt_hashSync (body_field numeric_signup_body ''password'')]\<rparr>)"
    by (rule serve_post_users_not_string) (simp_all add: fields)
  with fields mail unused show ?thesis
    by (simp add: out_defs)
qed

text \<open>
  Claim C8, amended. For every user-creation request: if the \<open>user\<close> or \<open>email\<close> value
  is (as a string) the name or email of a stored user, the creation fails with 400 and
  stores nothing. If \<open>user\<close>, \<open>email\<close> and \<open>password\<close> are all present, the password
  is a string, \<open>user\<close> and \<open>email\<close> are values the String type casts (to non-empty
  strings \<open>n\<close> and \<open>e\<close>), \<open>e\<close> passes the schema's email validator, bcrypt returns a
  non-empty hash, and neither \<open>n\<close> nor \<open>e\<close> is stored yet, the answer is 201 with the
  created record, which is appended to the users. A present password that is not a string
  is answered 400. A record sent with 201 carries as \<open>accessToken\<close> the hex rendering of
  128 random bytes: 256 characters, all hexadecimal digits.
\<close>

theorem post_users_outcome:
  "((\<exists>u\<in>set (users d). castString (body_field b ''user'') = Str (name u)
                  \<or> castString (body_field b ''email'') = Str (email u)) \<longrightarrow>
      (\<exists>pl. reply (serve w authorization (Post_users b) d) = Some (400, pl))
      \<and> thrown (serve w authorization (Post_users b) d) = None
      \<and> after (serve w authorization (Post_users b) d) = d)
   \<and> (truthy (body_field b ''user'') \<longrightarrow> castString (body_field b ''user'') = Str n \<longrightarrow>
      n \<noteq> [] \<longrightarrow>
      truthy (body_field b ''email'') \<longrightarrow> castString (body_field b ''email'') = Str e \<longrightarrow>
      email_validator e \<longrightarrow>
      body_field b ''password'' = JString p \<longrightarrow> p \<noteq> [] \<longrightarrow> hashSync w p \<noteq> [] \<longrightarrow>
      n \<notin> set (map name (users d)) \<longrightarrow> e \<notin> set (map email (users d)) \<longrightarrow>
        reply (serve w authorization (Post_users b) d)
          = Some (201, UserDoc \<lparr>user_id = freshId w, name = n, email = e,
               password = hashSync w p, accessToken = default_accessToken w\<rparr>)
        \<and> after (serve w authorization (Post_users b) d)
          = d\<lparr>users := users d @ [\<lparr>user_id = freshId w, name = n, email = e,
               password = hashSync w p, accessToken = default_accessToken w\<rparr>]\<rparr>)
   \<and> (truthy (body_field b ''user'') \<longrightarrow> truthy (body_field b ''email'') \<longrightarrow>
      truthy (body_field b ''password'') \<longrightarrow> (\<forall>p. body_field b ''password'' \<noteq> JString p) \<longrightarrow>
        reply (serve w authorization (Post_users b) d) = Some (400, ErrorObject IllegalArguments)
        \<and> after (serve w authorization (Post_users b) d) = d)
   \<and> (\<forall>u. reply (serve w authorization (Post_users b) d) = Some (201, UserDoc u) \<longrightarrow>
        accessToken u = toString_hex (randomBytes w 128)
        \<and> length (randomBytes w 128) = 128
        \<and> length (accessToken u) = 256
        \<and> set (accessToken u) \<subseteq> set ''0123456789abcdef'')"
proof (intro conjI impI allI)
  assume "\<exists>u\<in>set (users d). castString (body_field b ''user'') = Str (name u)
                  \<or> castString (body_field b ''email'') = Str (email u)"
  note dup = post_users_duplicate [OF this, of w authorization]
  from dup show "\<exists>pl. reply (serve w authorization (Post_users b) d) = Some (400, pl)"
    by blast
  from dup show "thrown (serve w authorization (Post_users b) d) = None"
    by blast
  from dup show "after (serve w authorization (Post_users b) d) = d"
    by blast
next
  assume present: "truthy (body_field b ''user'')" "truthy (body_field b ''email'')"
    and casts: "castString (body_field b ''user'') = Str n" "n \<noteq> []"
      "castString (body_field b ''email'') = Str e" "email_validator e"
    and pw: "body_field b ''password'' = JString p" "p \<noteq> []"
    and hash: "hashSync w p \<noteq> []"
    and unused: "n \<notin> set (map name (users d))" "e \<notin> set (map email (users d))"
  from casts have e: "e \<noteq> []"
    using email_validator_Nil by blast
  have out: "serve w authorization (Post_users b) d =
      (Inr (), \<lparr>store = d\<lparr>users := users d @ [\<lparr>user_id = freshId w, name = n, email = e,
               password = hashSync w p, accessToken = default_accessToken w\<rparr>]\<rparr>,
          statusCode = 201,
          sent = Some (201, UserDoc \<lparr>user_id = freshId w, name = n, email = e,
               password = hashSync w p, accessToken = default_accessToken w\<rparr>),
          calls = [Bcrypt_hashSync (JString p),
             User_save \<lparr>user_id = freshId w, name = n, email = e,
               password = hashSync w p, accessToken = default_accessToken w\<rparr>]\<rparr>)"
    using casts hash unused e
    by (subst serve_post_users_string [OF present pw])
       (simp add: new_User_cast Let_def)
  show "reply (serve w authorization (Post_users b) d)
          = Some (201, UserDoc \<lparr>user_id = freshId w, name = n, email = e,
               password = hashSync w p, accessToken = default_accessToken w\<rparr>)"
    by (simp add: out reply_def)
  show "after (serve w authorization (Post_users b) d)
          = d\<lparr>users := users d @ [\<lparr>user_id = freshId w, name = n, email = e,
               password = hashSync w p, accessToken = default_accessToken w\<rparr>]\<rparr>"
    by (simp add: out after_def)
next
  assume "truthy (body_field b ''user'')" "truthy (body_field b ''email'')"
    "truthy (body_field b ''password'')" "\<forall>p. body_field b ''password'' \<noteq> JString p"
  note out = serve_post_users_not_string [OF this, of w authorization d]
  show "reply (serve w authorization (Post_users b) d) = Some (400, ErrorObject IllegalArguments)"
    by (simp add: out reply_def)
  show "after (serve w authorization (Post_users b) d) = d"
    by (simp add: out after_def)
next
  fix u
  assume "reply (serve w authorization (Post_users b) d) = Some (201, UserDoc u)"
  from post_users_created [OF this] have token: "accessToken u = default_accessToken w"
    by simp
  show "accessToken u = toString_hex (randomBytes w 128)"
    by (simp add: token default_accessToken_def)
  show "length (randomBytes w 128) = 128"
    by (simp add: randomBytes_def)
  show "length (accessToken u) = 256"
    by (simp add: token length_default_accessToken)
  show "set (accessToken u) \<subseteq> set ''0123456789abcdef''"
    by (simp only: token set_default_accessToken)
qed

theorem post_users_outcome_witness:
  "(\<exists>u\<in>set (users sample_db).
       castString (body_field [''user'' \<mapsto> JString ''alice'', ''email'' \<mapsto> JString ''z@x.com'',
          ''password'' \<mapsto> JString ''pw9''] ''user'') = Str (name u)
       \<or> castString (body_field [''user'' \<mapsto> JString ''alice'', ''email'' \<mapsto> JString ''z@x.com'',
          ''password'' \<mapsto> JString ''pw9''] ''email'') = Str (email u))
   \<and> (\<exists>pl. reply (serve sample_world None (Post_users [''user'' \<mapsto> JString ''alice'',
          ''email'' \<mapsto> JString ''z@x.com'', ''password'' \<mapsto> JString ''pw9'']) sample_db)
        = Some (400, pl))
   \<and> email_validator ''c@x.com'' \<and> hashSync sample_world ''pw3'' \<noteq> []
   \<and> ''42'' \<notin> set (map name (users sample_db))
   \<and> ''c@x.com'' \<notin> set (map email (users sample_db))
   \<and> reply (serve sample_world None (Post_users [''user'' \<mapsto> JNumber ''42'',
          ''email'' \<mapsto> JString ''c@x.com'', ''password'' \<mapsto> JString ''pw3'']) sample_db)
        = Some (201, UserDoc \<lparr>user_id = 7, name = ''42'', email = ''c@x.com'',
             password = ''$pw3'', accessToken = default_accessToken sample_world\<rparr>)
   \<and> length (default_accessToken sample_world) = 256
   \<and> reply (serve sample_world None (Post_users [''user'' \<mapsto> JString ''carol'',
          ''email'' \<mapsto> JString ''c@x.com'', ''password'' \<mapsto> JBool True]) sample_db)
        = Some (400, ErrorObject IllegalArguments)"
proof -
  let ?dup = "[''user'' \<mapsto> JString ''alice'', ''email'' \<mapsto> JString ''z@x.com'',
          ''password'' \<mapsto> JString ''pw9'']"
  let ?new = "[''user'' \<mapsto> JNumber ''42'', ''email'' \<mapsto> JString ''c@x.com'',
          ''password'' \<mapsto> JString ''pw3'']"
  let ?bad = "[''user'' \<mapsto> JString ''carol'', ''email'' \<mapsto> JString ''c@x.com'',
          ''password'' \<mapsto> JBool True]"
  have dup: "\<exists>u\<in>set (users sample_db).
       castString (body_field ?dup ''user'') = Str (name u)
       \<or> castString (body_field ?dup ''email'') = Str (email u)"
    by (simp add: sample_defs body_field_def)
  have mail: "email_validator ''c@x.com''"
    by code_simp
  have hash: "hashSync sample_world ''pw3'' \<noteq> []" "hashSync sample_world ''pw3'' = ''$pw3''"
    "freshId sample_world = 7"
    by (simp_all add: sample_defs)
  have unused: "''42'' \<notin> set (map name (users sample_db))"
    "''c@x.com'' \<notin> set (map email (users sample_db))"
    by (simp_all add: sample_defs)
  have fields: "truthy (body_field ?new ''user'')" "castString (body_field ?new ''user'') = Str ''42''"
    "truthy (body_field ?new ''email'')" "castString (body_field ?new ''email'') = Str ''c@x.com''"
    "body_field ?new ''password'' = JString ''pw3''"
    by (simp_all add: body_field_def)
  have bad: "truthy (body_field ?bad ''user'')" "truthy (body_field ?bad ''email'')"
    "truthy (body_field ?bad ''password'')" "\<forall>p. body_field ?bad ''password'' \<noteq> JString p"
    by (simp_all add: body_field_def)
  note first = post_users_outcome [where b = ?dup and d = sample_db and w = sample_world
      and authorization = None]
  note second = post_users_outcome [where b = ?new and d = sample_db and w = sample_world
      and authorization = None and n = "''42''" and e = "''c@x.com''" and p = "''pw3''"]
  note third = post_users_outcome [where b = ?bad and d = sample_db and w = sample_world
      and authorization = None]
  from first dup have rejected: "\<exists>pl. reply (serve sample_world None (Post_users ?dup) sample_db)
        = Some (400, pl)"
    by blast
  from second fields mail hash(1) unused
  have created: "reply (serve sample_world None (Post_users ?new) sample_db)
        = Some (201, UserDoc \<lparr>user_id = freshId sample_world, name = ''42'',
             email = ''c@x.com'', password = hashSync sample_world ''pw3'',
             accessToken = default_accessToken sample_world\<rparr>)"
    by simp
  with second have len: "length (default_accessToken sample_world) = 256"
    by fastforce
  from third bad
  have refused: "reply (serve sample_world None (Post_users ?bad) sample_db)
        = Some (400, ErrorObject IllegalArguments)"
    by blast
  with dup rejected mail hash unused created len show ?thesis
    by simp
qed

section \<open>Logging in\<close>

lemmas login_defs = serve_def fresh_def post_users_userName_def User_findOne_by_name_def
  bcrypt_compareSync_def io_defs Let_def

lemma serve_login_unknown:
  assumes "truthy (body_field b ''password'')"
    and "find (\<lambda>u. name u = n) (users d) = None"
  shows "serve w authorization (Post_users_userName n b) d =
     (Inr (), \<lparr>store = d, statusCode = 401, sent = Some (401, NotFoundTrue),
        calls = [User_findOne_name n]\<rparr>)"
  using assms by (simp add: login_defs)

lemma serve_login_string:
  assumes "body_field b ''password'' = JString p" "p \<noteq> []"
    and "find (\<lambda>u. name u = n) (users d) = Some u"
  shows "serve w authorization (Post_users_userName n b) d =
     (Inr (), \<lparr>store = d, statusCode = (if compareSync w p (password u) then 200 else 401),
        sent = Some (if compareSync w p (password u)
                     then (200, Credentials (name u) (accessToken u)) else (401, NotFoundTrue)),
        calls = [User_findOne_name n, Bcrypt_compareSync (JString p) (password u)]\<rparr>)"
  using assms by (simp add: login_defs)

lemma serve_login_falsy:
  assumes "\<not> truthy (body_field b ''password'')"
  shows "serve w authorization (Post_users_userName n b) d =
     (case find (\<lambda>u. name u = n) (users d) of
        None \<Rightarrow>
          (Inl HeadersSent, \<lparr>store = d, statusCode = 401,
             sent = Some (200, ErrorMessage ''password missing in the body of request''),
             calls = [User_findOne_name n]\<rparr>)
      | Some u \<Rightarrow>
          (case body_field b ''password'' of
             JString p \<Rightarrow>
               (Inl HeadersSent, \<lparr>store = d,
                  statusCode = (if compareSync w p (password u) then 200 else 401),
                  sent = Some (200, ErrorMessage ''password missing in the body of request''),
                  calls = [User_findOne_name n,
                           Bcrypt_compareSync (body_field b ''password'') (password u)]\<rparr>)
           | _ \<Rightarrow>
               (Inl IllegalArguments, \<lparr>store = d, statusCode = 200,
                  sent = Some (200, ErrorMessage ''password missing in the body of request''),
                  calls = [User_findOne_name n,
                           Bcrypt_compareSync (body_field b ''password'') (password u)]\<rparr>)))"
  using assms
  by (cases "body_field b ''password''")
     (simp_all add: login_defs split: option.splits)

lemma after_login: "after (serve w authorization (Post_users_userName n b) d) = d"
  by (cases "body_field b ''password''")
     (auto simp: after_def login_defs split: option.splits)

lemma serve_login_not_string:
  assumes "truthy (body_field b ''password'')" "\<forall>p. body_field b ''password'' \<noteq> JString p"
    and "find (\<lambda>u. name u = n) (users d) = Some u"
  shows "serve w authorization (Post_users_userName n b) d =
     (Inl IllegalArguments, \<lparr>store = d, statusCode = 200, sent = None,
        calls = [User_findOne_name n,
                 Bcrypt_compareSync (body_field b ''password'') (password u)]\<rparr>)"
  using assms
  by (cases "body_field b ''password''") (simp_all add: login_defs)

text \<open>
  With a (truthy) string password, an unknown name and a known name whose stored hash the
  password does not match are answered alike: 401 with the body \<open>{ notFound: true }\<close>,
  nothing thrown, the store unchanged.
\<close>

lemma login_failure_string_password:
  assumes "truthy (body_field b ''password'')"
    and "\<not> (\<exists>u\<in>set (users d). name u = n)
         \<or> (\<exists>u p. find (\<lambda>u. name u = n) (users d) = Some u
                \<and> body_field b ''password'' = JString p \<and> \<not> compareSync w p (password u))"
  shows "reply (serve w authorization (Post_users_userName n b) d) = Some (401, NotFoundTrue)
         \<and> thrown (serve w authorization (Post_users_userName n b) d) = None
         \<and> after (serve w authorization (Post_users_userName n b) d) = d"
  using assms(2)
proof
  assume "\<not> (\<exists>u\<in>set (users d). name u = n)"
  then have "find (\<lambda>u. name u = n) (users d) = None"
    by (simp add: find_None_iff)
  from serve_login_unknown [OF assms(1) this] show ?thesis
    by (simp add: out_defs)
next
  assume "\<exists>u p. find (\<lambda>u. name u = n) (users d) = Some u
                \<and> body_field b ''password'' = JString p \<and> \<not> compareSync w p (password u)"
  then obtain u p where found: "find (\<lambda>u. name u = n) (users d) = Some u"
    and pw: "body_field b ''password'' = JString p" and wrong: "\<not> compareSync w p (password u)"
    by blast
  from assms(1) pw have "p \<noteq> []"
    by simp
  from serve_login_string [OF pw this found] wrong show ?thesis
    by (simp add: out_defs)
qed

text \<open>
  A supplied password that is not a string separates the two cases. For an unknown name
  the comparison is never reached and the answer is the 401; for a known name
  \<open>bcrypt.compareSync\<close> throws on the non-string argument, the async handler has no
  \<open>try\<close> around it, and no response is sent at all.
\<close>

lemma login_not_string_known:
  assumes "truthy (body_field b ''password'')" "\<forall>p. body_field b ''password'' \<noteq> JString p"
    and "find (\<lambda>u. name u = n) (users d) = Some u"
  shows "reply (serve w authorization (Post_users_userName n b) d) = None
         \<and> thrown (serve w authorization (Post_users_userName n b) d) = Some IllegalArguments
         \<and> after (serve w authorization (Post_users_userName n b) d) = d"
  by (simp add: serve_login_not_string [OF assms] out_defs)

lemma login_not_string_unknown:
  assumes "truthy (body_field b ''password'')"
    and "find (\<lambda>u. name u = n) (users d) = None"
  shows "reply (serve w authorization (Post_users_userName n b) d) = Some (401, NotFoundTrue)
         \<and> thrown (serve w authorization (Post_users_userName n b) d) = None
         \<and> after (serve w authorization (Post_users_userName n b) d) = d"
  by (simp add: serve_login_unknown [OF assms] out_defs)

text \<open>
  Claim C7 does not hold of the code. The login request with the body \<open>{"password": 123}\<close>
  supplies a password. For the name \<open>nobody\<close>, which no stored user has, it is answered
  401 with \<open>{ notFound: true }\<close>. For the name \<open>alice\<close>, which a stored user has, the hash
  comparison fails by throwing, nothing is sent and the exception leaves the handler: the two
  outcomes differ, which tells the caller that the name exists. With the string password
  \<open>"guess"\<close>, which matches no stored hash, both names are answered the same 401.
\<close>

theorem login_failure_not_uniform:
  "truthy (body_field numeric_password_body ''password'')
   \<and> ''nobody'' \<notin> name ` set (users sample_db)
   \<and> reply (serve sample_world None (Post_users_userName ''nobody'' numeric_password_body)
        sample_db) = Some (401, NotFoundTrue)
   \<and> thrown (serve sample_world None (Post_users_userName ''nobody'' numeric_password_body)
        sample_db) = None
   \<and> alice \<in> set (users sample_db) \<and> name alice = ''alice''
   \<and> reply (serve sample_world None (Post_users_userName ''alice'' numeric_password_body)
        sample_db) = None
   \<and> thrown (serve sample_world None (Post_users_userName ''alice'' numeric_password_body)
        sample_db) = Some IllegalArguments
   \<and> reply (serve sample_world None
        (Post_users_userName ''nobody'' [''password'' \<mapsto> JString ''guess'']) sample_db)
       = Some (401, NotFoundTrue)
   \<and> reply (serve sample_world None
        (Post_users_userName ''alice'' [''password'' \<mapsto> JString ''guess'']) sample_db)
       = Some (401, NotFoundTrue)"
proof -
  let ?b = "[''password'' \<mapsto> JString ''guess'']"
  have num: "truthy (body_field numeric_password_body ''password'')"
    "\<forall>p. body_field numeric_password_body ''password'' \<noteq> JString p"
    by (simp_all add: body_field_def numeric_password_body_def)
  have pw: "body_field ?b ''password'' = JString ''guess''" "truthy (body_field ?b ''password'')"
    by (simp_all add: body_field_def)
  have unknown: "find (\<lambda>u. name u = ''nobody'') (users sample_db) = None"
    "''nobody'' \<notin> name ` set (users sample_db)"
    by (simp_all add: sample_defs)
  have known: "find (\<lambda>u. name u = ''alice'') (users sample_db) = Some alice"
    "alice \<in> set (users sample_db)" "name alice = ''alice''"
    by (simp_all add: sample_defs)
  have wrong: "\<not> compareSync sample_world ''guess'' (password alice)"
    by (simp add: sample_defs)
  note first = login_not_string_unknown [OF num(1) unknown(1), of sample_world None]
  note second = login_not_string_known [OF num known(1), of sample_world None]
  from serve_login_unknown [OF pw(2) unknown(1), of sample_world None]
  have third: "reply (serve sample_world None (Post_users_userName ''nobody'' ?b) sample_db)
       = Some (401, NotFoundTrue)"
    by (simp add: out_defs)
  from serve_login_string [OF pw(1) _ known(1), of sample_world None] wrong
  have fourth: "reply (serve sample_world None (Post_users_userName ''alice'' ?b) sample_db)
       = Some (401, NotFoundTrue)"
    by (simp add: out_defs)
  from num(1) unknown(2) known(2,3) first second third fourth show ?thesis
    by blast
qed


text \<open>
  Claim C10, as stated, fails where no stored user has the given name: the handler answers
  status 200 with the error body and looks the user up, but \<open>user && ...\<close> then skips the
  hash comparison, and the only call made is the lookup.
\<close>

theorem login_missing_password_counterexample:
  "\<not> truthy (body_field empty_body ''password'')
   \<and> ''nobody'' \<notin> name ` set (users sample_db)
   \<and> reply (serve sample_world None (Post_users_userName ''nobody'' empty_body) sample_db)
       = Some (200, ErrorMessage ''password missing in the body of request'')
   \<and> trace (serve sample_world None (Post_users_userName ''nobody'' empty_body) sample_db)
       = [User_findOne_name ''nobody'']"
  by (simp add: serve_login_falsy out_defs body_field_def empty_body_def sample_defs)

text \<open>
  Claim C10, amended. For every login request whose body lacks a password (absent or
  falsy), the handler answers status 200 with the body
  \<open>{ error: "password missing in the body of request" }\<close> and, having no early return,
  goes on to look the user up by name and, when the lookup returns a user, to call the hash
  comparison with the supplied value and that user's stored hash. These are the only calls;
  the handler then ends with an exception (bcrypt rejecting a non-string, or the second
  answer finding the headers sent) and the store is unchanged.
\<close>

theorem login_missing_password:
  assumes "\<not> truthy (body_field b ''password'')"
  shows "reply (serve w authorization (Post_users_userName n b) d)
           = Some (200, ErrorMessage ''password missing in the body of request'')
         \<and> trace (serve w authorization (Post_users_userName n b) d)
           = User_findOne_name n #
               (case find (\<lambda>u. name u = n) (users d) of
                  None \<Rightarrow> []
                | Some u \<Rightarrow> [Bcrypt_compareSync (body_field b ''password'') (password u)])
         \<and> thrown (serve w authorization (Post_users_userName n b) d)
              \<in> {Some HeadersSent, Some IllegalArguments}
         \<and> after (serve w authorization (Post_users_userName n b) d) = d"
  by (cases "body_field b ''password''")
     (simp_all add: serve_login_falsy [OF assms] out_defs split: option.splits)

theorem login_missing_password_witness:
  "\<not> truthy (body_field Map.empty ''password'')
   \<and> reply (serve sample_world None (Post_users_userName ''alice'' Map.empty) sample_db)
       = Some (200, ErrorMessage ''password missing in the body of request'')
   \<and> trace (serve sample_world None (Post_users_userName ''alice'' Map.empty) sample_db)
       = [User_findOne_name ''alice'', Bcrypt_compareSync JUndefined ''$pw1'']"
proof -
  have falsy: "\<not> truthy (body_field Map.empty ''password'')"
    "body_field Map.empty ''password'' = JUndefined"
    by (simp_all add: body_field_def)
  have known: "find (\<lambda>u. name u = ''alice'') (users sample_db) = Some alice"
    "password alice = ''$pw1''"
    by (simp_all add: sample_defs)
  from login_missing_password [OF falsy(1), of sample_world None "''alice''" sample_db]
    falsy known
  show ?thesis by simp
qed


subsection \<open>User records are only ever appended\<close>

lemma find_append_Some: "find P xs = Some x \<Longrightarrow> find P (xs @ ys) = Some x"
  by (induction xs) (auto split: if_splits)

lemma find_append_fresh: "\<not> (\<exists>y\<in>set xs. P y) \<Longrightarrow> P x \<Longrightarrow> find P (xs @ [x]) = Some x"
  by (induction xs) auto

lemma users_after_resource: "users (after (serve w authorization (Resource r) d)) = users d"
proof (cases "matching_accessToken authorization (users d)")
  case None
  then show ?thesis
    by (simp add: serve_Resource_rejected after_def)
next
  case (Some u)
  show ?thesis
    by (cases r)
       (auto simp: serve_Resource_admitted [OF Some] fresh_def after_def handler_defs store_defs
          io_defs Let_def split: option.splits)
qed

lemma users_after_post_users:
  "users (after (serve w authorization (Post_users b) d)) = users d
   \<or> (\<exists>u. users (after (serve w authorization (Post_users b) d)) = users d @ [u])"
proof (cases b rule: post_users_cases)
  case missing
  then show ?thesis
    by (simp add: serve_post_users_missing after_def)
next
  case not_string
  then show ?thesis
    by (simp add: serve_post_users_not_string after_def)
next
  case (string p)
  show ?thesis
    by (simp add: serve_post_users_string [OF string] after_def Let_def)
qed

lemma users_after_serve: "prefix (users d) (users (after (serve w authorization r d)))"
proof (cases r)
  case Get_root
  then show ?thesis
    by (simp add: serve_def fresh_def get_root_def after_def io_defs)
next
  case (Post_users b)
  with users_after_post_users [of w authorization b d] show ?thesis
    by auto
next
  case (Post_users_userName n b)
  then show ?thesis
    by (simp add: after_login)
next
  case (Resource rr)
  then show ?thesis
    by (simp add: users_after_resource)
qed

lemma users_after_run: "prefix (users d) (users (run reqs d))"
proof (induction reqs arbitrary: d)
  case Nil
  show ?case by simp
next
  case (Cons rq reqs)
  obtain w a r where rq: "rq = (w, a, r)"
    by (cases rq)
  from users_after_serve [of d w a r] Cons.IH [of "after (serve w a r d)"]
  have "prefix (users d) (users (run reqs (after (serve w a r d))))"
    by (rule prefix_order.trans)
  then show ?case
    by (simp add: rq)
qed

lemma find_prefix: "find P xs = Some x \<Longrightarrow> prefix xs ys \<Longrightarrow> find P ys = Some x"
  by (auto simp: prefix_def find_append_Some)

lemma sample_signup:
  "serve sample_world None (Post_users [''user'' \<mapsto> JString ''carol'',
      ''email'' \<mapsto> JString ''c@x.com'', ''password'' \<mapsto> JString ''pw3'']) sample_db
   = (Inr (), \<lparr>store = sample_db\<lparr>users := users sample_db @
          [\<lparr>user_id = 7, name = ''carol'', email = ''c@x.com'', password = ''$pw3'',
            accessToken = default_accessToken sample_world\<rparr>]\<rparr>,
        statusCode = 201,
        sent = Some (201, UserDoc \<lparr>user_id = 7, name = ''carol'', email = ''c@x.com'',
            password = ''$pw3'', accessToken = default_accessToken sample_world\<rparr>),
        calls = [Bcrypt_hashSync (JString ''pw3''),
          User_save \<lparr>user_id = 7, name = ''carol'', email = ''c@x.com'', password = ''$pw3'',
            accessToken = default_accessToken sample_world\<rparr>]\<rparr>)"
proof -
  have mail: "email_validator ''c@x.com''"
    by code_simp
  have world: "hashSync sample_world ''pw3'' = ''$pw3''" "freshId sample_world = 7"
    by (simp_all add: sample_defs)
  have taken: "''carol'' \<notin> set (map name (users sample_db))"
    "''c@x.com'' \<notin> set (map email (users sample_db))"
    by (simp_all add: sample_defs)
  show ?thesis
    by (subst serve_post_users_string [where p = "''pw3''"])
       (simp_all add: body_field_def new_User_strings Let_def mail world taken del: set_map)
qed

text \<open>
  Claim C6. A login with the name of a stored user and a password that bcrypt accepts
  against that user's stored hash answers 200 with the user's name and its stored
  \<open>accessToken\<close>; a login never changes the store, so repeating it returns the same token.
  The stored token is the one generated at creation: if an account was created (201) with
  record \<open>u\<close> and any requests were served since, the stored user of that name is still
  \<open>u\<close>, whose token is the default drawn at its creation.
\<close>

theorem login_returns_creation_token:
  "(find (\<lambda>x. name x = n) (users d) = Some u \<longrightarrow>
      body_field b ''password'' = JString p \<longrightarrow> p \<noteq> [] \<longrightarrow> compareSync w p (password u) \<longrightarrow>
        reply (serve w authorization (Post_users_userName n b) d)
          = Some (200, Credentials (name u) (accessToken u))
        \<and> thrown (serve w authorization (Post_users_userName n b) d) = None)
   \<and> after (serve w authorization (Post_users_userName n b) d) = d
   \<and> (reply (serve w0 a0 (Post_users b0) d0) = Some (201, UserDoc u) \<longrightarrow>
      d = run reqs (after (serve w0 a0 (Post_users b0) d0)) \<longrightarrow>
        find (\<lambda>x. name x = name u) (users d) = Some u
        \<and> accessToken u = default_accessToken w0)"
proof (intro conjI impI)
  assume found: "find (\<lambda>x. name x = n) (users d) = Some u"
    and pw: "body_field b ''password'' = JString p" "p \<noteq> []"
    and correct: "compareSync w p (password u)"
  from serve_login_string [OF pw found, of w authorization] correct
  show "reply (serve w authorization (Post_users_userName n b) d)
          = Some (200, Credentials (name u) (accessToken u))"
    and "thrown (serve w authorization (Post_users_userName n b) d) = None"
    by (simp_all add: out_defs)
next
  show "after (serve w authorization (Post_users_userName n b) d) = d"
    by (rule after_login)
next
  assume created: "reply (serve w0 a0 (Post_users b0) d0) = Some (201, UserDoc u)"
    and later: "d = run reqs (after (serve w0 a0 (Post_users b0) d0))"
  note made = post_users_created [OF created]
  from made show "accessToken u = default_accessToken w0"
    by simp
  from made have "name u \<notin> name ` set (users d0)"
    by simp
  then have "\<not> (\<exists>y\<in>set (users d0). name y = name u)"
    by (metis image_eqI)
  then have "find (\<lambda>x. name x = name u) (users d0 @ [u]) = Some u"
    by (rule find_append_fresh) simp
  with made have "find (\<lambda>x. name x = name u) (users (after (serve w0 a0 (Post_users b0) d0)))
      = Some u"
    by simp
  then show "find (\<lambda>x. name x = name u) (users d) = Some u"
    unfolding later by (rule find_prefix) (rule users_after_run)
qed


theorem login_returns_creation_token_witness:
  "reply (serve sample_world None (Post_users [''user'' \<mapsto> JString ''carol'',
      ''email'' \<mapsto> JString ''c@x.com'', ''password'' \<mapsto> JString ''pw3'']) sample_db)
     = Some (201, UserDoc \<lparr>user_id = 7, name = ''carol'', email = ''c@x.com'',
          password = ''$pw3'', accessToken = default_accessToken sample_world\<rparr>)
   \<and> body_field [''password'' \<mapsto> JString ''pw3''] ''password'' = JString ''pw3''
   \<and> compareSync sample_world ''pw3'' ''$pw3''
   \<and> reply (serve sample_world None
        (Post_users_userName ''carol'' [''password'' \<mapsto> JString ''pw3''])
        (run [(sample_world, Some ''T'', Resource (Delete_postings_id alice_posting_ref)),
              (sample_world, None,
                 Post_users_userName ''carol'' [''password'' \<mapsto> JString ''pw3''])]
           (after (serve sample_world None (Post_users [''user'' \<mapsto> JString ''carol'',
              ''email'' \<mapsto> JString ''c@x.com'', ''password'' \<mapsto> JString ''pw3''])
              sample_db))))
     = Some (200, Credentials ''carol'' (default_accessToken sample_world))"
proof -
  let ?signup = "[''user'' \<mapsto> JString ''carol'', ''email'' \<mapsto> JString ''c@x.com'',
      ''password'' \<mapsto> JString ''pw3'']"
  let ?login = "[''password'' \<mapsto> JString ''pw3'']"
  let ?carol = "\<lparr>user_id = 7, name = ''carol'', email = ''c@x.com'', password = ''$pw3'',
      accessToken = default_accessToken sample_world\<rparr>"
  let ?d = "run [(sample_world, Some ''T'', Resource (Delete_postings_id alice_posting_ref)),
                 (sample_world, None, Post_users_userName ''carol'' ?login)]
             (after (serve sample_world None (Post_users ?signup) sample_db))"
  have created: "reply (serve sample_world None (Post_users ?signup) sample_db)
      = Some (201, UserDoc ?carol)"
    by (simp add: sample_signup reply_def)
  have pw: "body_field ?login ''password'' = JString ''pw3''"
    by (simp add: body_field_def)
  have correct: "compareSync sample_world ''pw3'' ''$pw3''"
    by (simp add: sample_defs)
  note inst = login_returns_creation_token [where u = ?carol and n = "''carol''" and d = ?d
      and b = ?login and p = "''pw3''" and w = sample_world and authorization = None
      and ?w0.0 = sample_world and ?a0.0 = None and ?b0.0 = ?signup and ?d0.0 = sample_db
      and reqs = "[(sample_world, Some ''T'', Resource (Delete_postings_id alice_posting_ref)),
                 (sample_world, None, Post_users_userName ''carol'' ?login)]"]
  from inst created have "find (\<lambda>x. name x = ''carol'') (users ?d) = Some ?carol"
    by simp
  with inst pw correct
  have "reply (serve sample_world None (Post_users_userName ''carol'' ?login) ?d)
      = Some (200, Credentials ''carol'' (default_accessToken sample_world))"
    by simp
  with created pw correct show ?thesis
    by blast
qed


end
